theory Spec2Isabelle
  imports Main "HOL-Library.AList"
begin

section \<open>JavaScript values\<close>

text \<open>
  The options bag and the transform request are plain JavaScript objects. An object is an
  association list from property names to values; \<open>map_of\<close> reads a property and
  \<open>AList.update\<close> writes one, keeping the position of a key that is already there.
\<close>

datatype jsval =
    JUndefined
  | JNull
  | JBool bool
  | JNumber int
  | JString string
  | JArray "jsval list"
  | JObject "(string \<times> jsval) list"

type_synonym jsobject = "(string \<times> jsval) list"

text \<open>\<open>typeof v\<close> for the values above.\<close>

fun typeof :: "jsval \<Rightarrow> string" where
  "typeof JUndefined = ''undefined''"
| "typeof JNull = ''object''"
| "typeof (JBool b) = ''boolean''"
| "typeof (JNumber n) = ''number''"
| "typeof (JString s) = ''string''"
| "typeof (JArray vs) = ''object''"
| "typeof (JObject kvs) = ''object''"

text \<open>\<open>k in obj\<close> and \<open>obj.k\<close> (a missing property reads as \<open>undefined\<close>).\<close>

definition has_key :: "jsobject \<Rightarrow> string \<Rightarrow> bool" where
  "has_key obj k = (map_of obj k \<noteq> None)"

definition obj_get :: "jsobject \<Rightarrow> string \<Rightarrow> jsval" where
  "obj_get obj k = (case map_of obj k of None \<Rightarrow> JUndefined | Some v \<Rightarrow> v)"

text \<open>\<open>a ?? b\<close>: the right operand only when the left one is \<open>null\<close> or \<open>undefined\<close>.\<close>

fun nullish_or :: "jsval \<Rightarrow> jsval \<Rightarrow> jsval" where
  "nullish_or JUndefined d = d"
| "nullish_or JNull d = d"
| "nullish_or v d = v"

text \<open>Decimal digits of an index, for the property names of a spread string.\<close>

fun decimal :: "nat \<Rightarrow> string" where
  "decimal n =
     (if n < 10 then [char_of (48 + n)]
      else decimal (n div 10) @ [char_of (48 + n mod 10)])"

text \<open>
  The own enumerable properties that \<open>{...v}\<close> copies: those of an object, the indexed
  elements of an array or characters of a string, and none for \<open>undefined\<close>, \<open>null\<close>,
  booleans and numbers.
\<close>

fun spread_props :: "jsval \<Rightarrow> jsobject" where
  "spread_props (JObject kvs) = kvs"
| "spread_props (JString s) =
     map (\<lambda>i. (decimal i, JString [s ! i])) [0 ..< length s]"
| "spread_props (JArray vs) =
     map (\<lambda>i. (decimal i, vs ! i)) [0 ..< length vs]"
| "spread_props v = []"

section \<open>Errors, results and the externals\<close>

text \<open>
  A thrown value is an \<open>Error\<close>, a \<open>TypeError\<close> (both carry a message and both are
  \<open>instanceof Error\<close>), or any other value.
\<close>

datatype thrown = Error string | TypeError string | NonError jsval

fun instanceof_Error :: "thrown \<Rightarrow> bool" where
  "instanceof_Error (Error m) = True"
| "instanceof_Error (TypeError m) = True"
| "instanceof_Error (NonError v) = False"

fun message :: "thrown \<Rightarrow> string" where
  "message (Error m) = m"
| "message (TypeError m) = m"
| "message (NonError v) = []"

text \<open>What esbuild's \<open>transform\<close> resolves to: the code and the serialized source map.\<close>

record TransformResult =
  code :: string
  map' :: "string option"

type_synonym transform_fn = "string \<Rightarrow> jsobject \<Rightarrow> thrown + TransformResult"

text \<open>
  The \<open>transform\<close> member of an implementation override: a function, or a value of any
  other type (the loader checks \<open>typeof\<close> at run time).
\<close>

datatype transform_member = Fn transform_fn | NotFn jsval

fun typeof_member :: "transform_member \<Rightarrow> string" where
  "typeof_member (Fn f) = ''function''"
| "typeof_member (NotFn v) = typeof v"

record Implementation =
  transform :: transform_member

text \<open>
  The options bag after the destructuring of lines 26 to 30: \<open>implementation\<close>,
  \<open>tsconfig\<close> (named \<open>tsconfigPath\<close> in the body) and the rest,
  \<open>esbuildTransformOptions\<close>. An absent key is \<open>None\<close>.
\<close>

record LoaderOptions =
  implementation :: "Implementation option"
  tsconfig :: "string option"
  esbuildTransformOptions :: jsobject

record LoaderContext =
  resourcePath :: string
  sourceMap :: bool
  getOptions :: LoaderOptions

text \<open>get-tsconfig's \<open>TsConfigResult\<close>, and the module's \<open>tsconfigCache\<close>.\<close>

record TsConfigResult =
  config :: jsobject
  path :: string

type_synonym cache = "string \<rightharpoonup> TsConfigResult"

text \<open>
  The functions the loader imports from \<open>path\<close>, \<open>get-tsconfig\<close>, \<open>esbuild\<close> and the
  JavaScript runtime. \<open>parseTsconfig\<close> and \<open>getTsconfig\<close> receive the cache and may both
  throw and write to it; \<open>getTsconfig\<close> returns \<open>null\<close> (\<open>None\<close>) when no file is found.
  \<open>files_match\<close> is the predicate that \<open>createFilesMatcher\<close> builds from a configuration.
\<close>

record externals =
  path_sep :: string
  path_resolve :: "string \<Rightarrow> string"
  parseTsconfig :: "string \<Rightarrow> cache \<Rightarrow> (thrown + jsobject) \<times> cache"
  getTsconfig :: "string \<Rightarrow> string \<Rightarrow> cache \<Rightarrow> (thrown + TsConfigResult option) \<times> cache"
  files_match :: "TsConfigResult \<Rightarrow> string \<Rightarrow> bool"
  defaultEsbuildTransform :: transform_fn
  JSON_parse :: "string \<Rightarrow> thrown + jsval"

text \<open>
  \<open>createFilesMatcher(tsconfig)(filePath)\<close>: the configuration when the file matches its
  include and exclude rules, \<open>undefined\<close> (\<open>None\<close>) otherwise.
\<close>

definition createFilesMatcher :: "externals \<Rightarrow> TsConfigResult \<Rightarrow> string \<Rightarrow> jsobject option" where
  "createFilesMatcher E t filePath =
     (if files_match E t filePath then Some (config t) else None)"

text \<open>
  What one invocation does besides completing: the calls it makes to the cache, to the
  externals and to the warning channel, in order.
\<close>

datatype event =
    CacheGet string
  | CacheSet string TsConfigResult
  | ParseTsconfig string
  | GetTsconfig string string
  | EmitWarning thrown
  | Transform string jsobject
  | JSONParse string

text \<open>
  How one invocation ends: \<open>done(error)\<close>, \<open>done(null, code, map)\<close>, or an exception that
  escapes the async function, which rejects its promise without calling \<open>done\<close>.
\<close>

datatype outcome =
    Done_error thrown
  | Done_ok string jsval
  | Rejected thrown

section \<open>Strings\<close>

text \<open>\<open>s.includes(sub)\<close>.\<close>

primrec str_includes :: "string \<Rightarrow> string \<Rightarrow> bool" where
  "str_includes [] sub = (sub = [])"
| "str_includes (c # cs) sub = (take (length sub) (c # cs) = sub \<or> str_includes cs sub)"

definition endsWith :: "string \<Rightarrow> string \<Rightarrow> bool" where
  "endsWith s suf = (length suf \<le> length s \<and> drop (length s - length suf) s = suf)"

text \<open>
  \<open>tsExtensionsPattern.test(s)\<close> for \<open>/\.(?:[cm]?ts|[tj]sx)$/\<close>: the pattern has no flags, so
  \<open>$\<close> is the end of the input, and the alternatives spell five suffixes.
\<close>

definition tsExtensionsPattern_test :: "string \<Rightarrow> bool" where
  "tsExtensionsPattern_test s =
     (endsWith s ''.ts'' \<or> endsWith s ''.cts'' \<or> endsWith s ''.mts''
      \<or> endsWith s ''.tsx'' \<or> endsWith s ''.jsx'')"

section \<open>The loader\<close>

definition isDependency :: "externals \<Rightarrow> string \<Rightarrow> bool" where
  "isDependency E p = str_includes p (path_sep E @ ''node_modules'' @ path_sep E)"

text \<open>Lines 43 to 49: the request before configuration resolution.\<close>

definition base_transformOptions :: "LoaderContext \<Rightarrow> jsobject" where
  "base_transformOptions ctx =
     (let rest = esbuildTransformOptions (getOptions ctx) in
      AList.update ''sourcefile'' (JString (resourcePath ctx))
       (AList.update ''sourcemap'' (JBool (sourceMap ctx))
         (AList.update ''loader'' (nullish_or (obj_get rest ''loader'') (JString ''default''))
           (AList.update ''target'' (nullish_or (obj_get rest ''target'') (JString ''es2015''))
             rest))))"

definition implementation_message :: "string \<Rightarrow> string" where
  "implementation_message ty =
     ''esbuild-loader: options.implementation.transform must be an ESBuild transform function. Received '' @ ty"

definition mismatch_message :: "string \<Rightarrow> string \<Rightarrow> string" where
  \<open>mismatch_message tsconfigFullPath file =
     ''esbuild-loader] The specified tsconfig at "'' @ tsconfigFullPath
     @ ''" was applied to the file "'' @ file
     @ ''" but does not match its "include" patterns''\<close>

definition parse_error_message :: "string \<Rightarrow> string" where
  "parse_error_message m = ''[esbuild-loader] Error parsing tsconfig.json:'' @ [CHR 0x0A] @ m"

text \<open>
  Lines 68 to 76: the record for the resolved explicit path, from the cache or parsed and
  stored. \<open>parseTsconfig\<close> is not inside a \<open>try\<close>: what it throws escapes the loader, and
  nothing is stored.
\<close>

definition cached_tsconfig ::
  "externals \<Rightarrow> string \<Rightarrow> cache \<Rightarrow> (thrown + TsConfigResult) \<times> event list \<times> cache" where
  "cached_tsconfig E tsconfigFullPath c =
     (let cacheKey = ''esbuild-loader:'' @ tsconfigFullPath
      in case c cacheKey of
           Some t \<Rightarrow> (Inr t, [CacheGet cacheKey], c)
         | None \<Rightarrow>
             (case parseTsconfig E tsconfigFullPath c of
                (Inl e, c') \<Rightarrow> (Inl e, [CacheGet cacheKey, ParseTsconfig tsconfigFullPath], c')
              | (Inr cfg, c') \<Rightarrow>
                  (let t = \<lparr>config = cfg, path = tsconfigFullPath\<rparr>
                   in (Inr t,
                       [CacheGet cacheKey, ParseTsconfig tsconfigFullPath, CacheSet cacheKey t],
                       c'(cacheKey \<mapsto> t)))))"

text \<open>Lines 66 to 87: the explicit path is applied whether or not the file matches.\<close>

definition explicit_branch ::
  "externals \<Rightarrow> string \<Rightarrow> string \<Rightarrow> jsobject \<Rightarrow> cache
     \<Rightarrow> (outcome + jsobject) \<times> event list \<times> cache" where
  "explicit_branch E tsconfigPath file transformOptions c =
     (let tsconfigFullPath = path_resolve E tsconfigPath
      in case cached_tsconfig E tsconfigFullPath c of
           (Inl e, evs, c') \<Rightarrow> (Inl (Rejected e), evs, c')
         | (Inr t, evs, c') \<Rightarrow>
             (let matches = createFilesMatcher E t file;
                  warn = (if matches = None
                          then [EmitWarning (Error (mismatch_message tsconfigFullPath file))]
                          else [])
              in (Inr (AList.update ''tsconfigRaw'' (JObject (config t)) transformOptions),
                  evs @ warn, c')))"

text \<open>
  Lines 89 to 111: discovery. A thrown \<open>Error\<close> ends the file unless it is a dependency;
  a thrown value that is not an \<open>Error\<close> is dropped by the \<open>catch\<close>.
\<close>

definition discovery_branch ::
  "externals \<Rightarrow> bool \<Rightarrow> string \<Rightarrow> jsobject \<Rightarrow> cache
     \<Rightarrow> (outcome + jsobject) \<times> event list \<times> cache" where
  "discovery_branch E isDep file transformOptions c =
     (case getTsconfig E file ''tsconfig.json'' c of
        (Inl error, c') \<Rightarrow>
          (if instanceof_Error error then
             (let tsconfigError = Error (parse_error_message (message error)) in
              if isDep
              then (Inr transformOptions,
                    [GetTsconfig file ''tsconfig.json'', EmitWarning tsconfigError], c')
              else (Inl (Done_error tsconfigError), [GetTsconfig file ''tsconfig.json''], c'))
           else (Inr transformOptions, [GetTsconfig file ''tsconfig.json''], c'))
      | (Inr None, c') \<Rightarrow> (Inr transformOptions, [GetTsconfig file ''tsconfig.json''], c')
      | (Inr (Some t), c') \<Rightarrow>
          (Inr (AList.update ''tsconfigRaw''
                  (case createFilesMatcher E t file of
                     None \<Rightarrow> JUndefined
                   | Some cfg \<Rightarrow> JObject cfg)
                  transformOptions),
           [GetTsconfig file ''tsconfig.json''], c'))"

text \<open>Lines 51 to 112. An empty \<open>tsconfig\<close> string is falsy, like an absent one.\<close>

definition resolve_tsconfig ::
  "externals \<Rightarrow> LoaderContext \<Rightarrow> jsobject \<Rightarrow> cache
     \<Rightarrow> (outcome + jsobject) \<times> event list \<times> cache" where
  "resolve_tsconfig E ctx transformOptions c =
     (let file = resourcePath ctx;
          isDep = isDependency E file
      in if \<not> has_key transformOptions ''tsconfigRaw''
            \<and> (\<not> isDep \<or> tsExtensionsPattern_test file)
         then (case tsconfig (getOptions ctx) of
                 Some tsconfigPath \<Rightarrow>
                   (if \<not> isDep \<and> tsconfigPath \<noteq> []
                    then explicit_branch E tsconfigPath file transformOptions c
                    else discovery_branch E isDep file transformOptions c)
               | None \<Rightarrow> discovery_branch E isDep file transformOptions c)
         else (Inr transformOptions, [], c))"

text \<open>
  Lines 117 to 120. The merged object has the keys and values of the spread; the order in
  which \<open>AList.merge\<close> lists the caller's keys is not JavaScript's, and nothing below depends
  on it: every statement reads the object through \<open>map_of\<close>.
\<close>

definition with_supported :: "jsobject \<Rightarrow> jsobject" where
  "with_supported transformOptions =
     AList.update ''supported''
       (JObject (AList.merge [(''dynamic-import'', JBool True)]
                   (spread_props (obj_get transformOptions ''supported''))))
       transformOptions"

text \<open>Lines 122 to 127 (41 to 46 of the earlier loader).\<close>

definition run_transform ::
  "externals \<Rightarrow> transform_fn \<Rightarrow> string \<Rightarrow> jsobject \<Rightarrow> outcome \<times> event list" where
  "run_transform E transform_f source transformOptions =
     (case transform_f source transformOptions of
        Inl error \<Rightarrow> (Done_error error, [Transform source transformOptions])
      | Inr r \<Rightarrow>
          (case map' r of
             None \<Rightarrow> (Done_ok (code r) JUndefined, [Transform source transformOptions])
           | Some m \<Rightarrow>
               (if m = [] then (Done_ok (code r) (JString m), [Transform source transformOptions])
                else (case JSON_parse E m of
                        Inl error \<Rightarrow>
                          (Done_error error, [Transform source transformOptions, JSONParse m])
                      | Inr v \<Rightarrow>
                          (Done_ok (code r) v, [Transform source transformOptions, JSONParse m])))))"

text \<open>
  Lines 32 to 40: the transformer to call, or the type that \<open>typeof\<close> reports for a
  \<open>transform\<close> member that is not a function.
\<close>

definition select_transform :: "externals \<Rightarrow> Implementation option \<Rightarrow> string + transform_fn" where
  "select_transform E impl =
     (case impl of
        None \<Rightarrow> Inr (defaultEsbuildTransform E)
      | Some i \<Rightarrow>
          (case transform i of
             Fn f \<Rightarrow> Inr f
           | NotFn v \<Rightarrow> Inl (typeof_member (NotFn v))))"

definition ESBuildLoader ::
  "externals \<Rightarrow> LoaderContext \<Rightarrow> string \<Rightarrow> cache \<Rightarrow> outcome \<times> event list \<times> cache" where
  "ESBuildLoader E ctx source c =
     (case select_transform E (implementation (getOptions ctx)) of
        Inl ty \<Rightarrow> (Done_error (TypeError (implementation_message ty)), [], c)
      | Inr transform_f \<Rightarrow>
          (case resolve_tsconfig E ctx (base_transformOptions ctx) c of
             (Inl out, evs, c') \<Rightarrow> (out, evs, c')
           | (Inr transformOptions, evs, c') \<Rightarrow>
               (case run_transform E transform_f source (with_supported transformOptions) of
                  (out, evs') \<Rightarrow> (out, evs @ evs', c'))))"

section \<open>The earlier loader (src/loader.ts)\<close>

text \<open>
  This variant removes only \<open>implementation\<close> from the options bag, so a \<open>tsconfig\<close> key
  stays among the forwarded options. The \<open>tsconfig\<close> it injects is the constant exported by
  the module \<open>./tsconfig\<close>, taken here as a parameter.
\<close>

definition legacy_transformOptions :: "LoaderContext \<Rightarrow> jsobject" where
  "legacy_transformOptions ctx =
     (let rest = (case tsconfig (getOptions ctx) of
                    None \<Rightarrow> esbuildTransformOptions (getOptions ctx)
                  | Some p \<Rightarrow> AList.update ''tsconfig'' (JString p)
                               (esbuildTransformOptions (getOptions ctx)))
      in AList.update ''sourcefile'' (JString (resourcePath ctx))
          (AList.update ''sourcemap'' (JBool (sourceMap ctx))
            (AList.update ''loader'' (nullish_or (obj_get rest ''loader'') (JString ''default''))
              (AList.update ''target'' (nullish_or (obj_get rest ''target'') (JString ''es2015''))
                rest))))"

definition ESBuildLoader_legacy ::
  "externals \<Rightarrow> jsval \<Rightarrow> LoaderContext \<Rightarrow> string \<Rightarrow> outcome \<times> event list" where
  "ESBuildLoader_legacy E module_tsconfig ctx source =
     (case select_transform E (implementation (getOptions ctx)) of
        Inl ty \<Rightarrow> (Done_error (TypeError (implementation_message ty)), [])
      | Inr transform_f \<Rightarrow>
          (let transformOptions = legacy_transformOptions ctx;
               transformOptions' =
                 (if \<not> has_key transformOptions ''tsconfigRaw''
                  then AList.update ''tsconfigRaw'' module_tsconfig transformOptions
                  else transformOptions)
           in run_transform E transform_f source transformOptions'))"

section \<open>Reading a run\<close>

text \<open>
  The events of configuration resolution: everything except the call of the transformer and
  the parsing of the source map.
\<close>

definition is_resolver_event :: "event \<Rightarrow> bool" where
  "is_resolver_event e =
     (case e of Transform src req \<Rightarrow> False | JSONParse m \<Rightarrow> False | _ \<Rightarrow> True)"

text \<open>How often a run called \<open>parseTsconfig\<close> on a path.\<close>

definition parse_count :: "string \<Rightarrow> event list \<Rightarrow> nat" where
  "parse_count p evs = length (filter (\<lambda>e. e = ParseTsconfig p) evs)"

text \<open>
  One build process: the loader invoked on one file after the other, each invocation
  starting from the cache the one before left.
\<close>

fun build :: "externals \<Rightarrow> (LoaderContext \<times> string) list \<Rightarrow> cache \<Rightarrow> event list \<times> cache" where
  "build E [] c = ([], c)"
| "build E ((ctx, source) # files) c =
     (case ESBuildLoader E ctx source c of
        (out, evs, c') \<Rightarrow> (case build E files c' of (evs', c'') \<Rightarrow> (evs @ evs', c'')))"

section \<open>Example inputs\<close>

text \<open>
  A POSIX project under \<open>/project\<close>: \<open>tsconfig.build.json\<close> parses, any other explicit path
  does not exist; discovery finds \<open>/project/tsconfig.json\<close> for files under \<open>/project/\<close>,
  fails to parse for files under \<open>/broken/\<close> and finds nothing elsewhere. Both
  configurations include \<open>src/a.ts\<close> only.
\<close>

definition example_config :: jsobject where
  "example_config =
     [(''compilerOptions'', JObject [(''jsx'', JString ''react'')]),
      (''include'', JArray [JString ''src/a.ts''])]"

definition example_env :: externals where
  \<open>example_env =
     \<lparr>path_sep = ''/'',
      path_resolve = (\<lambda>p. if take 2 p = ''./'' then ''/project/'' @ drop 2 p else p),
      parseTsconfig = (\<lambda>p c.
        if p = ''/project/tsconfig.build.json'' then (Inr example_config, c)
        else (Inl (Error (''Cannot resolve tsconfig at path: '' @ p)), c)),
      getTsconfig = (\<lambda>file name c.
        if take 9 file = ''/project/''
        then (Inr (Some \<lparr>config = example_config, path = ''/project/'' @ name\<rparr>), c)
        else if take 8 file = ''/broken/''
        then (Inl (Error ''Failed to parse tsconfig''), c)
        else (Inr None, c)),
      files_match = (\<lambda>t file. file = ''/project/src/a.ts''),
      defaultEsbuildTransform = (\<lambda>src req.
        if src = [] then Inl (Error ''Transform failed'')
        else Inr \<lparr>code = src,
                  map' = Some (if obj_get req ''sourcemap'' = JBool True
                               then ''{"version":3}'' else [])\<rparr>),
      JSON_parse = (\<lambda>m.
        if m = ''{"version":3}'' then Inr (JObject [(''version'', JNumber 3)])
        else Inl (Error ''Unexpected token''))\<rparr>\<close>

definition example_context :: "string \<Rightarrow> LoaderOptions \<Rightarrow> LoaderContext" where
  "example_context file opts = \<lparr>resourcePath = file, sourceMap = False, getOptions = opts\<rparr>"

definition no_options :: LoaderOptions where
  "no_options = \<lparr>implementation = None, tsconfig = None, esbuildTransformOptions = []\<rparr>"

text \<open>
  Options used below: an explicit path that parses, a caller-supplied \<open>tsconfigRaw\<close>, a
  custom implementation that returns an empty map, and an explicit path that does not
  exist; then the records the externals produce.
\<close>

definition empty_cache :: cache where
  "empty_cache = Map.empty"

definition explicit_options :: LoaderOptions where
  "explicit_options = no_options\<lparr>tsconfig := Some ''./tsconfig.build.json''\<rparr>"

definition build_config_record :: TsConfigResult where
  "build_config_record = \<lparr>config = example_config, path = ''/project/tsconfig.build.json''\<rparr>"

definition raw_options :: LoaderOptions where
  "raw_options = explicit_options\<lparr>esbuildTransformOptions :=
     [(''tsconfigRaw'',
       JObject [(''compilerOptions'', JObject [(''useDefineForClassFields'', JBool True)])])]\<rparr>"

definition custom_result :: TransformResult where
  \<open>custom_result =
     \<lparr>code = ''export function foo() { return "MY_CUSTOM_ESBUILD_IMPLEMENTATION"; }'',
      map' = Some []\<rparr>\<close>

definition custom_transform :: transform_fn where
  "custom_transform src req = Inr custom_result"

definition custom_options :: LoaderOptions where
  "custom_options = no_options\<lparr>implementation := Some \<lparr>transform = Fn custom_transform\<rparr>\<rparr>"

definition missing_options :: LoaderOptions where
  "missing_options = no_options\<lparr>tsconfig := Some ''./missing.json''\<rparr>"

definition discovered_record :: TsConfigResult where
  "discovered_record = \<lparr>config = example_config, path = ''/project/tsconfig.json''\<rparr>"

text \<open>
  A build of four files: two that name the same explicit path, and between them a
  dependency and a file that relies on discovery.
\<close>

definition mid_files :: "(LoaderContext \<times> string) list" where
  "mid_files =
     [(example_context ''/project/node_modules/pkg/index.ts'' explicit_options, ''export {}''),
      (example_context ''/project/src/b.ts'' no_options, ''let b = 2'')]"

definition first_run :: "outcome \<times> event list \<times> cache" where
  "first_run = ESBuildLoader example_env
     (example_context ''/project/src/a.ts'' explicit_options) ''let a = 1'' empty_cache"

definition mid_run :: "event list \<times> cache" where
  "mid_run = build example_env mid_files (snd (snd first_run))"

definition second_run :: "outcome \<times> event list \<times> cache" where
  "second_run = ESBuildLoader example_env
     (example_context ''/project/src/other.ts'' explicit_options) ''let o = 3'' (snd mid_run)"

section \<open>Invalid implementation override\<close>



section \<open>Requests, events and the cache\<close>

lemma str_includes_iff: "str_includes s sub \<longleftrightarrow> (\<exists>p q. s = p @ sub @ q)"
proof (induction s)
  case Nil
  then show ?case by auto
next
  case (Cons c cs)
  show ?case
  proof
    assume "str_includes (c # cs) sub"
    then consider "take (length sub) (c # cs) = sub" | "str_includes cs sub" by auto
    then show "\<exists>p q. c # cs = p @ sub @ q"
    proof cases
      case 1
      then have "c # cs = [] @ sub @ drop (length sub) (c # cs)"
        by (metis append_Nil append_take_drop_id)
      then show ?thesis by blast
    next
      case 2
      with Cons.IH obtain p q where "cs = p @ sub @ q" by blast
      then have "c # cs = (c # p) @ sub @ q" by simp
      then show ?thesis by blast
    qed
  next
    assume "\<exists>p q. c # cs = p @ sub @ q"
    then obtain p q where pq: "c # cs = p @ sub @ q" by blast
    show "str_includes (c # cs) sub"
    proof (cases p)
      case Nil
      with pq have "take (length sub) (c # cs) = sub" by simp
      then show ?thesis by simp
    next
      case (Cons a p')
      with pq have "cs = p' @ sub @ q" by simp
      with Cons.IH have "str_includes cs sub" by blast
      then show ?thesis by simp
    qed
  qed
qed

lemma endsWith_iff: "endsWith s suf \<longleftrightarrow> (\<exists>p. s = p @ suf)"
proof
  assume "endsWith s suf"
  then have "s = take (length s - length suf) s @ suf"
    by (metis append_take_drop_id endsWith_def)
  then show "\<exists>p. s = p @ suf" ..
next
  assume "\<exists>p. s = p @ suf"
  then show "endsWith s suf" by (auto simp: endsWith_def)
qed

lemma str_includes_middle: "str_includes (a @ x @ b) x"
  unfolding str_includes_iff by blast

lemma mismatch_message_names_paths:
  "str_includes (mismatch_message tsconfigFullPath rp) tsconfigFullPath"
  "str_includes (mismatch_message tsconfigFullPath rp) rp"
proof -
  show "str_includes (mismatch_message tsconfigFullPath rp) tsconfigFullPath"
    unfolding mismatch_message_def by (rule str_includes_middle)
  have "str_includes ((a @ tsconfigFullPath @ b) @ rp @ d) rp" for a b d :: string
    by (rule str_includes_middle)
  then have "str_includes (a @ tsconfigFullPath @ b @ rp @ d) rp" for a b d :: string
    by (simp only: append_assoc)
  then show "str_includes (mismatch_message tsconfigFullPath rp) rp"
    unfolding mismatch_message_def .
qed

lemma map_of_base_tsconfigRaw:
  "map_of (base_transformOptions ctx) ''tsconfigRaw'' = map_of (esbuildTransformOptions (getOptions ctx)) ''tsconfigRaw''"
  by (simp add: base_transformOptions_def Let_def update_conv')

lemma map_of_base_supported:
  "map_of (base_transformOptions ctx) ''supported'' = map_of (esbuildTransformOptions (getOptions ctx)) ''supported''"
  by (simp add: base_transformOptions_def Let_def update_conv')

lemma map_of_legacy_tsconfigRaw:
  "map_of (legacy_transformOptions ctx) ''tsconfigRaw'' = map_of (esbuildTransformOptions (getOptions ctx)) ''tsconfigRaw''"
  by (simp add: legacy_transformOptions_def Let_def update_conv' split: option.splits)

lemma map_of_with_supported_other:
  "k \<noteq> ''supported'' \<Longrightarrow> map_of (with_supported t) k = map_of t k"
  by (simp add: with_supported_def update_conv')

lemma run_transform_cases:
  "run_transform E f src req = (out, evs) \<Longrightarrow>
     (evs = [Transform src req] \<or> (\<exists>m. evs = [Transform src req, JSONParse m]))"
  by (auto simp: run_transform_def split: sum.splits option.splits if_splits)

lemma resolve_events:
  "resolve_tsconfig E ctx t c = (r, evs, c') \<Longrightarrow> e \<in> set evs \<Longrightarrow> is_resolver_event e"
  by (auto simp: resolve_tsconfig_def explicit_branch_def discovery_branch_def cached_tsconfig_def
      is_resolver_event_def Let_def split: sum.splits option.splits if_splits prod.splits)

lemma resolve_other_keys:
  "resolve_tsconfig E ctx t c = (Inr t', evs, c') \<Longrightarrow> k \<noteq> ''tsconfigRaw'' \<Longrightarrow> map_of t' k = map_of t k"
  by (auto simp: resolve_tsconfig_def explicit_branch_def discovery_branch_def cached_tsconfig_def
      update_conv' Let_def split: sum.splits option.splits if_splits prod.splits)

lemma resolve_skipped:
  "has_key t ''tsconfigRaw'' \<or> (isDependency E (resourcePath ctx) \<and> \<not> tsExtensionsPattern_test (resourcePath ctx))
   \<Longrightarrow> resolve_tsconfig E ctx t c = (Inr t, [], c)"
  by (auto simp: resolve_tsconfig_def Let_def)

lemma loader_skipped:
  assumes "has_key (esbuildTransformOptions (getOptions ctx)) ''tsconfigRaw''
           \<or> (isDependency E (resourcePath ctx) \<and> \<not> tsExtensionsPattern_test (resourcePath ctx))"
    and "ESBuildLoader E ctx source c = (out, evs, c')"
  shows "c' = c \<and> (\<forall>e \<in> set evs. \<not> is_resolver_event e)
     \<and> (\<forall>src req. Transform src req \<in> set evs \<longrightarrow>
           src = source \<and> map_of req ''tsconfigRaw'' = map_of (esbuildTransformOptions (getOptions ctx)) ''tsconfigRaw'')
     \<and> (\<forall>f. select_transform E (implementation (getOptions ctx)) = Inr f \<longrightarrow>
           (\<exists>req. Transform source req \<in> set evs))"
proof (cases "select_transform E (implementation (getOptions ctx))")
  case (Inl ty)
  with assms(2) show ?thesis by (simp add: ESBuildLoader_def)
next
  case (Inr f)
  have sk: "resolve_tsconfig E ctx (base_transformOptions ctx) c = (Inr (base_transformOptions ctx), [], c)"
    using assms(1) by (intro resolve_skipped) (simp add: has_key_def map_of_base_tsconfigRaw)
  obtain o2 e2 where rt: "run_transform E f source (with_supported (base_transformOptions ctx)) = (o2, e2)"
    by (cases "run_transform E f source (with_supported (base_transformOptions ctx))")
  from assms(2) Inr sk rt have eq: "evs = e2" "c' = c" by (simp_all add: ESBuildLoader_def)
  from run_transform_cases[OF rt] eq show ?thesis
    by (auto simp: is_resolver_event_def map_of_with_supported_other map_of_base_tsconfigRaw Inr)
qed

lemma legacy_skipped:
  assumes "has_key (esbuildTransformOptions (getOptions ctx)) ''tsconfigRaw''"
    and "ESBuildLoader_legacy E mt ctx source = (out, evs)"
  shows "(\<forall>e \<in> set evs. \<not> is_resolver_event e)
     \<and> (\<forall>src req. Transform src req \<in> set evs \<longrightarrow>
           src = source \<and> map_of req ''tsconfigRaw'' = map_of (esbuildTransformOptions (getOptions ctx)) ''tsconfigRaw'')
     \<and> (\<forall>f. select_transform E (implementation (getOptions ctx)) = Inr f \<longrightarrow>
           (\<exists>req. Transform source req \<in> set evs))"
proof (cases "select_transform E (implementation (getOptions ctx))")
  case (Inl ty)
  with assms(2) show ?thesis by (simp add: ESBuildLoader_legacy_def)
next
  case (Inr f)
  have hk: "has_key (legacy_transformOptions ctx) ''tsconfigRaw''"
    using assms(1) by (simp add: has_key_def map_of_legacy_tsconfigRaw)
  from assms(2) Inr hk have rt: "run_transform E f source (legacy_transformOptions ctx) = (out, evs)"
    by (simp add: ESBuildLoader_legacy_def Let_def)
  from run_transform_cases[OF rt] show ?thesis
    by (auto simp: is_resolver_event_def map_of_legacy_tsconfigRaw Inr)
qed

lemma loader_cases:
  assumes "ESBuildLoader E ctx source c = (out, evs, c')"
  obtains
    (invalid) ty where "select_transform E (implementation (getOptions ctx)) = Inl ty"
      "out = Done_error (TypeError (implementation_message ty))" "evs = []" "c' = c"
  | (stopped) f where "select_transform E (implementation (getOptions ctx)) = Inr f"
      "resolve_tsconfig E ctx (base_transformOptions ctx) c = (Inl out, evs, c')"
  | (transformed) f t' evs_r evs_t where
      "select_transform E (implementation (getOptions ctx)) = Inr f"
      "resolve_tsconfig E ctx (base_transformOptions ctx) c = (Inr t', evs_r, c')"
      "run_transform E f source (with_supported t') = (out, evs_t)"
      "evs = evs_r @ evs_t"
  using assms
  by (auto simp: ESBuildLoader_def split: sum.splits prod.splits)

lemma transform_event_not_resolver: "\<not> is_resolver_event (Transform src req)"
  by (simp add: is_resolver_event_def)

lemma JSONParse_event_not_resolver: "\<not> is_resolver_event (JSONParse m)"
  by (simp add: is_resolver_event_def)

lemma supported_of_with_supported:
  "map_of (with_supported t) ''supported'' =
     Some (JObject (AList.merge [(''dynamic-import'', JBool True)] (spread_props (obj_get t ''supported''))))"
  by (simp add: with_supported_def update_conv')

text \<open>
  C9. Every request that reaches the transformer has an object under \<open>supported\<close> in which
  \<open>dynamic-import\<close> is the caller's entry when the caller's \<open>supported\<close> has one and \<open>true\<close>
  otherwise, and in which every other key reads as in the caller's \<open>supported\<close>.
\<close>

theorem dynamic_import_enabled:
  assumes "ESBuildLoader E ctx source c = (out, evs, c')"
    and "Transform src req \<in> set evs"
  shows "\<exists>sup. map_of req ''supported'' = Some (JObject sup)
     \<and> map_of sup ''dynamic-import'' =
         Some (case map_of (spread_props (obj_get (esbuildTransformOptions (getOptions ctx)) ''supported''))
                      ''dynamic-import'' of
                 None \<Rightarrow> JBool True
               | Some v \<Rightarrow> v)
     \<and> (\<forall>k. k \<noteq> ''dynamic-import'' \<longrightarrow>
           map_of sup k =
           map_of (spread_props (obj_get (esbuildTransformOptions (getOptions ctx)) ''supported'')) k)"
  using assms(1)
proof (cases rule: loader_cases)
  case (invalid ty)
  with assms(2) show ?thesis by simp
next
  case (stopped f)
  from resolve_events[OF stopped(2) assms(2)] show ?thesis
    by (simp add: is_resolver_event_def)
next
  case (transformed f t' evs_r evs_t)
  have "Transform src req \<notin> set evs_r"
    using resolve_events[OF transformed(2)] transform_event_not_resolver by blast
  with assms(2) transformed(4) have "Transform src req \<in> set evs_t" by simp
  with run_transform_cases[OF transformed(3)] have req: "req = with_supported t'" by auto
  have "map_of t' ''supported'' = map_of (esbuildTransformOptions (getOptions ctx)) ''supported''"
    using resolve_other_keys[OF transformed(2), of "''supported''"] by (simp add: map_of_base_supported)
  then have g: "obj_get t' ''supported'' = obj_get (esbuildTransformOptions (getOptions ctx)) ''supported''"
    by (simp add: obj_get_def)
  show ?thesis
    unfolding req supported_of_with_supported g
    by (auto simp: merge_conv' map_add_def split: option.splits)
qed

theorem dynamic_import_enabled_witness:
  "\<exists>req sup. Transform ''let a = 1'' req
       \<in> set (fst (snd (ESBuildLoader example_env
              (example_context ''/elsewhere/x.js''
                 (no_options\<lparr>esbuildTransformOptions :=
                    [(''supported'', JObject [(''dynamic-import'', JBool False), (''bigint'', JBool True)])]\<rparr>))
              ''let a = 1'' empty_cache)))
     \<and> map_of req ''supported'' = Some (JObject sup)
     \<and> map_of sup ''dynamic-import'' = Some (JBool False)
     \<and> map_of sup ''bigint'' = Some (JBool True)"
proof -
  let ?ctx = "example_context ''/elsewhere/x.js''
                 (no_options\<lparr>esbuildTransformOptions :=
                    [(''supported'', JObject [(''dynamic-import'', JBool False), (''bigint'', JBool True)])]\<rparr>)"
  let ?run = "ESBuildLoader example_env ?ctx ''let a = 1'' empty_cache"
  let ?req = "[(''supported'', JObject [(''dynamic-import'', JBool False), (''bigint'', JBool True)]),
               (''target'', JString ''es2015''), (''loader'', JString ''default''),
               (''sourcemap'', JBool False), (''sourcefile'', JString ''/elsewhere/x.js'')]"
  have h1: "?run = (fst ?run, fst (snd ?run), snd (snd ?run))" by simp
  have h2: "Transform ''let a = 1'' ?req \<in> set (fst (snd ?run))"
    by (simp add: example_env_def example_context_def no_options_def explicit_options_def empty_cache_def
        select_transform_def has_key_def isDependency_def tsExtensionsPattern_test_def endsWith_def
        Let_def ESBuildLoader_def resolve_tsconfig_def discovery_branch_def
        base_transformOptions_def with_supported_def run_transform_def obj_get_def)
  from dynamic_import_enabled[OF h1 h2] obtain sup where s: "map_of ?req ''supported'' = Some (JObject sup)"
    and d: "map_of sup ''dynamic-import'' =
         Some (case map_of (spread_props (obj_get (esbuildTransformOptions (getOptions ?ctx)) ''supported''))
                      ''dynamic-import'' of
                 None \<Rightarrow> JBool True
               | Some v \<Rightarrow> v)"
    and o: "\<forall>k. k \<noteq> ''dynamic-import'' \<longrightarrow>
           map_of sup k =
           map_of (spread_props (obj_get (esbuildTransformOptions (getOptions ?ctx)) ''supported'')) k"
    by blast
  from d have d': "map_of sup ''dynamic-import'' = Some (JBool False)"
    by (simp add: example_env_def example_context_def no_options_def explicit_options_def empty_cache_def
        select_transform_def has_key_def isDependency_def tsExtensionsPattern_test_def endsWith_def
        Let_def obj_get_def)
  from o have "map_of sup ''bigint'' =
      map_of (spread_props (obj_get (esbuildTransformOptions (getOptions ?ctx)) ''supported'')) ''bigint''"
    by simp
  then have o': "map_of sup ''bigint'' = Some (JBool True)"
    by (simp add: example_env_def example_context_def no_options_def explicit_options_def empty_cache_def
        select_transform_def has_key_def isDependency_def tsExtensionsPattern_test_def endsWith_def
        Let_def obj_get_def)
  from h2 s d' o' show ?thesis by blast
qed

lemma run_transform_map:
  assumes "run_transform E f src req = (out, evs)" and "f src req = Inr r"
  shows "(map' r = None \<longrightarrow> out = Done_ok (code r) JUndefined \<and> evs = [Transform src req])
     \<and> (map' r = Some [] \<longrightarrow> out = Done_ok (code r) (JString []) \<and> evs = [Transform src req])
     \<and> (\<forall>m. JSONParse m \<in> set evs \<longrightarrow> m \<noteq> [] \<and> map' r = Some m)"
  using assms by (auto simp: run_transform_def split: sum.splits option.splits if_splits)

lemma loader_transform_event:
  assumes "ESBuildLoader E ctx source c = (out, evs, c')"
    and "Transform src req \<in> set evs"
  shows "\<exists>f evs_r evs_t. select_transform E (implementation (getOptions ctx)) = Inr f
    \<and> src = source \<and> run_transform E f source req = (out, evs_t) \<and> evs = evs_r @ evs_t
    \<and> (\<forall>e \<in> set evs_r. is_resolver_event e)"
  using assms(1)
proof (cases rule: loader_cases)
  case (invalid ty)
  with assms(2) show ?thesis by simp
next
  case (stopped f)
  from resolve_events[OF stopped(2) assms(2)] show ?thesis
    by (simp add: is_resolver_event_def)
next
  case (transformed f t' evs_r evs_t)
  have r: "\<forall>e \<in> set evs_r. is_resolver_event e"
    using resolve_events[OF transformed(2)] by blast
  then have "Transform src req \<notin> set evs_r"
    using transform_event_not_resolver by blast
  with assms(2) transformed(4) have "Transform src req \<in> set evs_t" by simp
  with run_transform_cases[OF transformed(3)] have req: "req = with_supported t'" "src = source" by auto
  show ?thesis
    using transformed r req by simp
qed

lemma loader_map:
  assumes "ESBuildLoader E ctx source c = (out, evs, c')"
    and "select_transform E (implementation (getOptions ctx)) = Inr f"
    and "Transform source req \<in> set evs"
    and "f source req = Inr r"
  shows "(map' r = None \<longrightarrow> out = Done_ok (code r) JUndefined \<and> (\<forall>m. JSONParse m \<notin> set evs))
     \<and> (map' r = Some [] \<longrightarrow> out = Done_ok (code r) (JString []) \<and> (\<forall>m. JSONParse m \<notin> set evs))
     \<and> (\<forall>m. JSONParse m \<in> set evs \<longrightarrow> m \<noteq> [] \<and> map' r = Some m)"
proof -
  from loader_transform_event[OF assms(1) assms(3)] assms(2)
  obtain evs_r evs_t where rt: "run_transform E f source req = (out, evs_t)"
    and eq: "evs = evs_r @ evs_t"
    and res: "\<forall>e \<in> set evs_r. is_resolver_event e"
    by auto
  have nj: "\<And>m. JSONParse m \<notin> set evs_r"
    using res JSONParse_event_not_resolver by blast
  note m = run_transform_map[OF rt assms(4)]
  show ?thesis
  proof (intro conjI impI allI)
    assume "map' r = None"
    with m show "out = Done_ok (code r) JUndefined" by simp
  next
    fix k assume "map' r = None"
    with m have "evs_t = [Transform source req]" by simp
    with eq nj show "JSONParse k \<notin> set evs" by simp
  next
    assume "map' r = Some []"
    with m show "out = Done_ok (code r) (JString [])" by simp
  next
    fix k assume "map' r = Some []"
    with m have "evs_t = [Transform source req]" by simp
    with eq nj show "JSONParse k \<notin> set evs" by simp
  next
    fix k assume "JSONParse k \<in> set evs"
    with eq nj have "JSONParse k \<in> set evs_t" by simp
    with m show "k \<noteq> []" by blast
  next
    fix k assume "JSONParse k \<in> set evs"
    with eq nj have "JSONParse k \<in> set evs_t" by simp
    with m show "map' r = Some k" by blast
  qed
qed

lemma legacy_map:
  assumes "ESBuildLoader_legacy E module_tsconfig ctx source = (out, evs)"
    and "select_transform E (implementation (getOptions ctx)) = Inr f"
    and "Transform source req \<in> set evs"
    and "f source req = Inr r"
  shows "(map' r = None \<longrightarrow> out = Done_ok (code r) JUndefined \<and> (\<forall>m. JSONParse m \<notin> set evs))
     \<and> (map' r = Some [] \<longrightarrow> out = Done_ok (code r) (JString []) \<and> (\<forall>m. JSONParse m \<notin> set evs))
     \<and> (\<forall>m. JSONParse m \<in> set evs \<longrightarrow> m \<noteq> [] \<and> map' r = Some m)"
proof -
  from assms(1) assms(2) obtain t where rl: "run_transform E f source t = (out, evs)"
    by (auto simp: ESBuildLoader_legacy_def Let_def split: if_splits)
  from run_transform_cases[OF rl] assms(3) have "t = req" by auto
  with rl have rl': "run_transform E f source req = (out, evs)" by simp
  note m = run_transform_map[OF rl' assms(4)]
  show ?thesis
  proof (intro conjI impI allI)
    assume "map' r = None"
    with m show "out = Done_ok (code r) JUndefined" by simp
  next
    fix k assume "map' r = None"
    with m have "evs = [Transform source req]" by simp
    then show "JSONParse k \<notin> set evs" by simp
  next
    assume "map' r = Some []"
    with m show "out = Done_ok (code r) (JString [])" by simp
  next
    fix k assume "map' r = Some []"
    with m have "evs = [Transform source req]" by simp
    then show "JSONParse k \<notin> set evs" by simp
  next
    fix k assume "JSONParse k \<in> set evs"
    with m show "k \<noteq> []" by blast
  next
    fix k assume "JSONParse k \<in> set evs"
    with m show "map' r = Some k" by blast
  qed
qed

lemma base_no_tsconfigRaw:
  "\<not> has_key (esbuildTransformOptions (getOptions ctx)) ''tsconfigRaw''
   \<Longrightarrow> \<not> has_key (base_transformOptions ctx) ''tsconfigRaw''"
  by (simp add: has_key_def map_of_base_tsconfigRaw)

lemma resolve_discovery:
  assumes "\<not> has_key t ''tsconfigRaw''"
    and "(isDependency E (resourcePath ctx) \<and> tsExtensionsPattern_test (resourcePath ctx))
         \<or> (\<not> isDependency E (resourcePath ctx)
            \<and> (tsconfig (getOptions ctx) = None \<or> tsconfig (getOptions ctx) = Some []))"
  shows "resolve_tsconfig E ctx t c
     = discovery_branch E (isDependency E (resourcePath ctx)) (resourcePath ctx) t c"
  using assms by (auto simp: resolve_tsconfig_def Let_def split: option.splits)

lemma resolve_explicit:
  assumes "\<not> has_key t ''tsconfigRaw''"
    and "\<not> isDependency E (resourcePath ctx)"
    and "tsconfig (getOptions ctx) = Some p" and "p \<noteq> []"
  shows "resolve_tsconfig E ctx t c = explicit_branch E p (resourcePath ctx) t c"
  using assms by (simp add: resolve_tsconfig_def Let_def)

lemma with_supported_tsconfigRaw:
  "map_of (with_supported t) ''tsconfigRaw'' = map_of t ''tsconfigRaw''"
  by (simp add: map_of_with_supported_other)

lemma discovery_throw_run:
  assumes "select_transform E (implementation (getOptions ctx)) = Inr f"
    and "\<not> has_key (esbuildTransformOptions (getOptions ctx)) ''tsconfigRaw''"
    and "getTsconfig E (resourcePath ctx) ''tsconfig.json'' c = (Inl err, c1)"
    and "instanceof_Error err"
    and "ESBuildLoader E ctx source c = (out, evs, c')"
  shows "(\<not> isDependency E (resourcePath ctx) \<longrightarrow>
            (tsconfig (getOptions ctx) = None \<or> tsconfig (getOptions ctx) = Some []) \<longrightarrow>
            out = Done_error (Error (parse_error_message (message err)))
            \<and> evs = [GetTsconfig (resourcePath ctx) ''tsconfig.json''] \<and> c' = c1)
     \<and> (isDependency E (resourcePath ctx) \<longrightarrow> tsExtensionsPattern_test (resourcePath ctx) \<longrightarrow>
            (\<exists>req evs_t. \<not> has_key req ''tsconfigRaw''
               \<and> run_transform E f source req = (out, evs_t)
               \<and> evs = [GetTsconfig (resourcePath ctx) ''tsconfig.json'',
                         EmitWarning (Error (parse_error_message (message err))),
                         Transform source req] @ tl evs_t)
            \<and> c' = c1)"
proof (cases "isDependency E (resourcePath ctx)")
  case False
  have "out = Done_error (Error (parse_error_message (message err)))
      \<and> evs = [GetTsconfig (resourcePath ctx) ''tsconfig.json''] \<and> c' = c1"
    if np: "tsconfig (getOptions ctx) = None \<or> tsconfig (getOptions ctx) = Some []"
  proof -
    have "resolve_tsconfig E ctx (base_transformOptions ctx) c
        = (Inl (Done_error (Error (parse_error_message (message err)))),
           [GetTsconfig (resourcePath ctx) ''tsconfig.json''], c1)"
      using resolve_discovery[OF base_no_tsconfigRaw[OF assms(2)], where E=E and c=c] False np assms(3,4)
      by (simp add: discovery_branch_def Let_def)
    with assms(1,5) show ?thesis by (simp add: ESBuildLoader_def)
  qed
  with False show ?thesis by simp
next
  case True
  have "(\<exists>req evs_t. \<not> has_key req ''tsconfigRaw''
               \<and> run_transform E f source req = (out, evs_t)
               \<and> evs = [GetTsconfig (resourcePath ctx) ''tsconfig.json'',
                         EmitWarning (Error (parse_error_message (message err))),
                         Transform source req] @ tl evs_t)
            \<and> c' = c1"
    if ts: "tsExtensionsPattern_test (resourcePath ctx)"
  proof -
    have r: "resolve_tsconfig E ctx (base_transformOptions ctx) c
        = (Inr (base_transformOptions ctx),
           [GetTsconfig (resourcePath ctx) ''tsconfig.json'',
            EmitWarning (Error (parse_error_message (message err)))], c1)"
      using resolve_discovery[OF base_no_tsconfigRaw[OF assms(2)], where E=E and c=c] True ts assms(3,4)
      by (simp add: discovery_branch_def Let_def)
    obtain o2 e2 where rt: "run_transform E f source (with_supported (base_transformOptions ctx)) = (o2, e2)"
      by (cases "run_transform E f source (with_supported (base_transformOptions ctx))")
    from assms(1,5) r rt have eq: "out = o2" "c' = c1"
      "evs = [GetTsconfig (resourcePath ctx) ''tsconfig.json'',
              EmitWarning (Error (parse_error_message (message err)))] @ e2"
      by (simp_all add: ESBuildLoader_def)
    from run_transform_cases[OF rt]
    have e2: "e2 = Transform source (with_supported (base_transformOptions ctx)) # tl e2" by auto
    have nk: "\<not> has_key (with_supported (base_transformOptions ctx)) ''tsconfigRaw''"
      using base_no_tsconfigRaw[OF assms(2)] by (simp add: has_key_def with_supported_tsconfigRaw)
    have "\<not> has_key (with_supported (base_transformOptions ctx)) ''tsconfigRaw''
        \<and> run_transform E f source (with_supported (base_transformOptions ctx)) = (out, e2)
        \<and> evs = [GetTsconfig (resourcePath ctx) ''tsconfig.json'',
                  EmitWarning (Error (parse_error_message (message err))),
                  Transform source (with_supported (base_transformOptions ctx))] @ tl e2"
      using nk rt eq e2 by simp
    then show ?thesis using eq(2) by blast
  qed
  with True show ?thesis by simp
qed

text \<open>
  C3. Discovery is reached and \<open>getTsconfig\<close> throws an \<open>Error\<close>. For a file outside
  \<open>node_modules\<close> the run ends with \<open>done\<close> of an \<open>Error\<close> whose message is the text
  \<open>[esbuild-loader] Error parsing tsconfig.json:\<close>, a line feed and the thrown message, and
  the only event is the call of \<open>getTsconfig\<close>: the transformer is not called. For a
  dependency with a TypeScript extension the same \<open>Error\<close> is emitted as a warning, and the
  transformer is then called with a request that has no \<open>tsconfigRaw\<close> key.
\<close>

theorem discovery_parse_error:
  assumes "select_transform E (implementation (getOptions ctx)) = Inr f"
    and "\<not> has_key (esbuildTransformOptions (getOptions ctx)) ''tsconfigRaw''"
    and "getTsconfig E (resourcePath ctx) ''tsconfig.json'' c = (Inl err, c1)"
    and "instanceof_Error err"
    and "ESBuildLoader E ctx source c = (out, evs, c')"
  shows "(\<not> isDependency E (resourcePath ctx) \<longrightarrow>
            (tsconfig (getOptions ctx) = None \<or> tsconfig (getOptions ctx) = Some []) \<longrightarrow>
            out = Done_error
                    (Error (''[esbuild-loader] Error parsing tsconfig.json:'' @ [CHR 0x0A]
                            @ message err))
            \<and> evs = [GetTsconfig (resourcePath ctx) ''tsconfig.json''] \<and> c' = c1)
     \<and> (isDependency E (resourcePath ctx) \<longrightarrow> tsExtensionsPattern_test (resourcePath ctx) \<longrightarrow>
            (\<exists>req evs_t. \<not> has_key req ''tsconfigRaw''
               \<and> run_transform E f source req = (out, evs_t)
               \<and> evs = [GetTsconfig (resourcePath ctx) ''tsconfig.json'',
                         EmitWarning
                           (Error (''[esbuild-loader] Error parsing tsconfig.json:'' @ [CHR 0x0A]
                                   @ message err)),
                         Transform source req] @ tl evs_t)
            \<and> c' = c1)"
  by (rule discovery_throw_run[OF assms, unfolded parse_error_message_def])

theorem discovery_parse_error_witness:
  "ESBuildLoader example_env (example_context ''/broken/src/a.ts'' no_options) ''let a = 1'' empty_cache
     = (Done_error (Error (''[esbuild-loader] Error parsing tsconfig.json:'' @ [CHR 0x0A]
               @ ''Failed to parse tsconfig'')),
        [GetTsconfig ''/broken/src/a.ts'' ''tsconfig.json''], empty_cache)
   \<and> (\<exists>req evs_t. \<not> has_key req ''tsconfigRaw''
        \<and> fst (snd (ESBuildLoader example_env
              (example_context ''/broken/node_modules/pkg/index.ts'' no_options)
              ''let a = 1'' empty_cache))
          = [GetTsconfig ''/broken/node_modules/pkg/index.ts'' ''tsconfig.json'',
             EmitWarning (Error (''[esbuild-loader] Error parsing tsconfig.json:'' @ [CHR 0x0A]
               @ ''Failed to parse tsconfig'')),
             Transform ''let a = 1'' req] @ tl evs_t)"
proof -
  let ?own = "example_context ''/broken/src/a.ts'' no_options"
  let ?dep = "example_context ''/broken/node_modules/pkg/index.ts'' no_options"
  let ?run = "ESBuildLoader example_env ?own ''let a = 1'' empty_cache"
  let ?rund = "ESBuildLoader example_env ?dep ''let a = 1'' empty_cache"
  let ?err = "Error ''Failed to parse tsconfig''"
  have i: "instanceof_Error ?err" by simp
  have m: "message ?err = ''Failed to parse tsconfig''" by simp
  have s1: "select_transform example_env (implementation (getOptions ?own))
      = Inr (defaultEsbuildTransform example_env)"
    by (simp add: example_env_def example_context_def no_options_def explicit_options_def empty_cache_def
        select_transform_def has_key_def isDependency_def tsExtensionsPattern_test_def endsWith_def
        Let_def)
  have n1: "\<not> has_key (esbuildTransformOptions (getOptions ?own)) ''tsconfigRaw''"
    by (simp add: example_env_def example_context_def no_options_def explicit_options_def empty_cache_def
        select_transform_def has_key_def isDependency_def tsExtensionsPattern_test_def endsWith_def
        Let_def)
  have p1: "resourcePath ?own = ''/broken/src/a.ts''" by (simp add: example_env_def example_context_def no_options_def explicit_options_def empty_cache_def
        select_transform_def has_key_def isDependency_def tsExtensionsPattern_test_def endsWith_def
        Let_def)
  have g1: "getTsconfig example_env (resourcePath ?own) ''tsconfig.json'' empty_cache
      = (Inl ?err, empty_cache)"
    unfolding p1 by (simp add: example_env_def)
  have r1: "?run = (fst ?run, fst (snd ?run), snd (snd ?run))" by simp
  have a1: "\<not> isDependency example_env (resourcePath ?own)"
    unfolding p1 by (simp add: example_env_def isDependency_def)
  have b1: "tsconfig (getOptions ?own) = None \<or> tsconfig (getOptions ?own) = Some []"
    by (simp add: example_env_def example_context_def no_options_def explicit_options_def empty_cache_def
        select_transform_def has_key_def isDependency_def tsExtensionsPattern_test_def endsWith_def
        Let_def)
  note own = discovery_parse_error[OF s1 n1 g1 i r1, THEN conjunct1, rule_format, OF a1 b1, unfolded p1 m]
  have own': "?run = (Done_error (Error (''[esbuild-loader] Error parsing tsconfig.json:'' @ [CHR 0x0A]
               @ ''Failed to parse tsconfig'')),
        [GetTsconfig ''/broken/src/a.ts'' ''tsconfig.json''], empty_cache)"
    using own by (simp add: prod_eq_iff)
  have s2: "select_transform example_env (implementation (getOptions ?dep))
      = Inr (defaultEsbuildTransform example_env)"
    by (simp add: example_env_def example_context_def no_options_def explicit_options_def empty_cache_def
        select_transform_def has_key_def isDependency_def tsExtensionsPattern_test_def endsWith_def
        Let_def)
  have n2: "\<not> has_key (esbuildTransformOptions (getOptions ?dep)) ''tsconfigRaw''"
    by (simp add: example_env_def example_context_def no_options_def explicit_options_def empty_cache_def
        select_transform_def has_key_def isDependency_def tsExtensionsPattern_test_def endsWith_def
        Let_def)
  have p2: "resourcePath ?dep = ''/broken/node_modules/pkg/index.ts''" by (simp add: example_env_def example_context_def no_options_def explicit_options_def empty_cache_def
        select_transform_def has_key_def isDependency_def tsExtensionsPattern_test_def endsWith_def
        Let_def)
  have g2: "getTsconfig example_env (resourcePath ?dep) ''tsconfig.json'' empty_cache
      = (Inl ?err, empty_cache)"
    unfolding p2 by (simp add: example_env_def)
  have r2: "?rund = (fst ?rund, fst (snd ?rund), snd (snd ?rund))" by simp
  have a2: "isDependency example_env (resourcePath ?dep)"
    unfolding p2 by (simp add: example_env_def isDependency_def)
  have b2: "tsExtensionsPattern_test (resourcePath ?dep)"
    unfolding p2 by (simp add: tsExtensionsPattern_test_def endsWith_def)
  note dep = discovery_parse_error[OF s2 n2 g2 i r2, THEN conjunct2, rule_format, OF a2 b2, THEN conjunct1, unfolded p2 m]
  from dep obtain req evs_t where "\<not> has_key req ''tsconfigRaw''"
    and "fst (snd ?rund)
          = [GetTsconfig ''/broken/node_modules/pkg/index.ts'' ''tsconfig.json'',
             EmitWarning (Error (''[esbuild-loader] Error parsing tsconfig.json:'' @ [CHR 0x0A]
               @ ''Failed to parse tsconfig'')),
             Transform ''let a = 1'' req] @ tl evs_t"
    by blast
  then have dep': "\<exists>req evs_t. \<not> has_key req ''tsconfigRaw''
        \<and> fst (snd ?rund)
          = [GetTsconfig ''/broken/node_modules/pkg/index.ts'' ''tsconfig.json'',
             EmitWarning (Error (''[esbuild-loader] Error parsing tsconfig.json:'' @ [CHR 0x0A]
               @ ''Failed to parse tsconfig'')),
             Transform ''let a = 1'' req] @ tl evs_t"
    by blast
  show ?thesis by (rule conjI[OF own' dep'])
qed

lemma run_transform_requests:
  assumes "run_transform E f source req = (out, evs_t)"
  shows "Transform source req \<in> set evs_t"
    and "\<And>src r. Transform src r \<in> set evs_t \<Longrightarrow> src = source \<and> r = req"
    and "\<And>w. EmitWarning w \<notin> set evs_t"
    and "\<And>k. CacheGet k \<notin> set evs_t"
    and "\<And>k t. CacheSet k t \<notin> set evs_t"
    and "\<And>p. ParseTsconfig p \<notin> set evs_t"
    and "\<And>p n. GetTsconfig p n \<notin> set evs_t"
  using run_transform_cases[OF assms] by auto

text \<open>
  C4. Discovery is reached and \<open>getTsconfig\<close> returns a record \<open>t\<close>: no warning is emitted, the
  transformer is called, and the request's \<open>tsconfigRaw\<close> is \<open>config t\<close> when the file matches
  \<open>t\<close> and \<open>undefined\<close> when it does not.
\<close>

theorem discovered_config_only_when_matching:
  assumes "select_transform E (implementation (getOptions ctx)) = Inr f"
    and "\<not> has_key (esbuildTransformOptions (getOptions ctx)) ''tsconfigRaw''"
    and "(isDependency E (resourcePath ctx) \<and> tsExtensionsPattern_test (resourcePath ctx))
         \<or> (\<not> isDependency E (resourcePath ctx)
            \<and> (tsconfig (getOptions ctx) = None \<or> tsconfig (getOptions ctx) = Some []))"
    and "getTsconfig E (resourcePath ctx) ''tsconfig.json'' c = (Inr (Some t), c1)"
    and "ESBuildLoader E ctx source c = (out, evs, c')"
  shows "(\<forall>w. EmitWarning w \<notin> set evs) \<and> c' = c1
     \<and> (\<exists>req. Transform source req \<in> set evs)
     \<and> (\<forall>src req. Transform src req \<in> set evs \<longrightarrow>
           map_of req ''tsconfigRaw''
             = Some (if files_match E t (resourcePath ctx) then JObject (config t) else JUndefined))"
proof -
  let ?raw = "if files_match E t (resourcePath ctx) then JObject (config t) else JUndefined"
  let ?t' = "AList.update ''tsconfigRaw'' ?raw (base_transformOptions ctx)"
  have r: "resolve_tsconfig E ctx (base_transformOptions ctx) c
      = (Inr ?t', [GetTsconfig (resourcePath ctx) ''tsconfig.json''], c1)"
    using resolve_discovery[OF base_no_tsconfigRaw[OF assms(2)] assms(3), where c=c] assms(4)
    by (simp add: discovery_branch_def createFilesMatcher_def)
  obtain o2 e2 where rt: "run_transform E f source (with_supported ?t') = (o2, e2)"
    by (cases "run_transform E f source (with_supported ?t')")
  from assms(1,5) r rt have eq: "c' = c1"
    "evs = GetTsconfig (resourcePath ctx) ''tsconfig.json'' # e2"
    by (simp_all add: ESBuildLoader_def)
  have raw: "map_of (with_supported ?t') ''tsconfigRaw'' = Some ?raw"
    by (simp add: with_supported_tsconfigRaw update_conv')
  note q = run_transform_requests[OF rt]
  have "\<forall>w. EmitWarning w \<notin> set evs" using eq(2) q(3) by simp
  moreover have "\<exists>req. Transform source req \<in> set evs" using eq(2) q(1) by auto
  moreover have "\<forall>src req. Transform src req \<in> set evs \<longrightarrow> map_of req ''tsconfigRaw'' = Some ?raw"
    using eq(2) q(2) raw by auto
  ultimately show ?thesis using eq(1) by blast
qed

theorem discovered_config_only_when_matching_witness:
  "(\<forall>w. EmitWarning w \<notin> set (fst (snd (ESBuildLoader example_env
        (example_context ''/project/src/b.ts'' no_options) ''let a = 1'' empty_cache))))
   \<and> (\<exists>req. Transform ''let a = 1'' req
          \<in> set (fst (snd (ESBuildLoader example_env
               (example_context ''/project/src/b.ts'' no_options) ''let a = 1'' empty_cache)))
        \<and> map_of req ''tsconfigRaw'' = Some JUndefined)
   \<and> (\<exists>req. Transform ''let a = 1'' req
          \<in> set (fst (snd (ESBuildLoader example_env
               (example_context ''/project/src/a.ts'' no_options) ''let a = 1'' empty_cache)))
        \<and> map_of req ''tsconfigRaw'' = Some (JObject example_config))"
proof -
  let ?b = "example_context ''/project/src/b.ts'' no_options"
  let ?a = "example_context ''/project/src/a.ts'' no_options"
  let ?runb = "ESBuildLoader example_env ?b ''let a = 1'' empty_cache"
  let ?runa = "ESBuildLoader example_env ?a ''let a = 1'' empty_cache"
  have pb: "resourcePath ?b = ''/project/src/b.ts''" by (simp add: example_env_def example_context_def no_options_def explicit_options_def empty_cache_def
        select_transform_def has_key_def isDependency_def tsExtensionsPattern_test_def endsWith_def
        Let_def discovered_record_def)
  have sb: "select_transform example_env (implementation (getOptions ?b))
      = Inr (defaultEsbuildTransform example_env)"
    by (simp add: example_env_def example_context_def no_options_def explicit_options_def empty_cache_def
        select_transform_def has_key_def isDependency_def tsExtensionsPattern_test_def endsWith_def
        Let_def discovered_record_def)
  have nb: "\<not> has_key (esbuildTransformOptions (getOptions ?b)) ''tsconfigRaw''"
    by (simp add: example_env_def example_context_def no_options_def explicit_options_def empty_cache_def
        select_transform_def has_key_def isDependency_def tsExtensionsPattern_test_def endsWith_def
        Let_def discovered_record_def)
  have ib: "\<not> isDependency example_env (resourcePath ?b)"
    unfolding pb by (simp add: example_env_def isDependency_def)
  have tb: "tsconfig (getOptions ?b) = None" by (simp add: example_env_def example_context_def no_options_def explicit_options_def empty_cache_def
        select_transform_def has_key_def isDependency_def tsExtensionsPattern_test_def endsWith_def
        Let_def discovered_record_def)
  have db: "(isDependency example_env (resourcePath ?b) \<and> tsExtensionsPattern_test (resourcePath ?b))
         \<or> (\<not> isDependency example_env (resourcePath ?b)
            \<and> (tsconfig (getOptions ?b) = None \<or> tsconfig (getOptions ?b) = Some []))"
    using ib tb by blast
  have gb: "getTsconfig example_env (resourcePath ?b) ''tsconfig.json'' empty_cache
      = (Inr (Some discovered_record), empty_cache)"
    unfolding pb by (simp add: example_env_def discovered_record_def)
  have rb: "?runb = (fst ?runb, fst (snd ?runb), snd (snd ?runb))" by simp
  have mb: "\<not> files_match example_env discovered_record (resourcePath ?b)"
    unfolding pb by (simp add: example_env_def)
  note fb = discovered_config_only_when_matching[OF sb nb db gb rb]
  from fb have b1: "\<forall>w. EmitWarning w \<notin> set (fst (snd ?runb))" by (rule conjunct1)
  from fb obtain req where rq: "Transform ''let a = 1'' req \<in> set (fst (snd ?runb))" by blast
  from fb rq have "map_of req ''tsconfigRaw''
      = Some (if files_match example_env discovered_record (resourcePath ?b)
              then JObject (config discovered_record) else JUndefined)"
    by blast
  with mb have "map_of req ''tsconfigRaw'' = Some JUndefined" by simp
  with rq have b2: "\<exists>req. Transform ''let a = 1'' req \<in> set (fst (snd ?runb))
        \<and> map_of req ''tsconfigRaw'' = Some JUndefined"
    by blast
  have pa: "resourcePath ?a = ''/project/src/a.ts''" by (simp add: example_env_def example_context_def no_options_def explicit_options_def empty_cache_def
        select_transform_def has_key_def isDependency_def tsExtensionsPattern_test_def endsWith_def
        Let_def discovered_record_def)
  have sa: "select_transform example_env (implementation (getOptions ?a))
      = Inr (defaultEsbuildTransform example_env)"
    by (simp add: example_env_def example_context_def no_options_def explicit_options_def empty_cache_def
        select_transform_def has_key_def isDependency_def tsExtensionsPattern_test_def endsWith_def
        Let_def discovered_record_def)
  have na: "\<not> has_key (esbuildTransformOptions (getOptions ?a)) ''tsconfigRaw''"
    by (simp add: example_env_def example_context_def no_options_def explicit_options_def empty_cache_def
        select_transform_def has_key_def isDependency_def tsExtensionsPattern_test_def endsWith_def
        Let_def discovered_record_def)
  have ia: "\<not> isDependency example_env (resourcePath ?a)"
    unfolding pa by (simp add: example_env_def isDependency_def)
  have ta: "tsconfig (getOptions ?a) = None" by (simp add: example_env_def example_context_def no_options_def explicit_options_def empty_cache_def
        select_transform_def has_key_def isDependency_def tsExtensionsPattern_test_def endsWith_def
        Let_def discovered_record_def)
  have da: "(isDependency example_env (resourcePath ?a) \<and> tsExtensionsPattern_test (resourcePath ?a))
         \<or> (\<not> isDependency example_env (resourcePath ?a)
            \<and> (tsconfig (getOptions ?a) = None \<or> tsconfig (getOptions ?a) = Some []))"
    using ia ta by blast
  have ga: "getTsconfig example_env (resourcePath ?a) ''tsconfig.json'' empty_cache
      = (Inr (Some discovered_record), empty_cache)"
    unfolding pa by (simp add: example_env_def discovered_record_def)
  have ra: "?runa = (fst ?runa, fst (snd ?runa), snd (snd ?runa))" by simp
  have ma: "files_match example_env discovered_record (resourcePath ?a)"
    unfolding pa by (simp add: example_env_def)
  have ca: "config discovered_record = example_config" by (simp add: discovered_record_def)
  note fa = discovered_config_only_when_matching[OF sa na da ga ra]
  from fa obtain req' where rq': "Transform ''let a = 1'' req' \<in> set (fst (snd ?runa))" by blast
  from fa rq' have "map_of req' ''tsconfigRaw''
      = Some (if files_match example_env discovered_record (resourcePath ?a)
              then JObject (config discovered_record) else JUndefined)"
    by blast
  with ma ca have "map_of req' ''tsconfigRaw'' = Some (JObject example_config)" by simp
  with rq' have a2: "\<exists>req. Transform ''let a = 1'' req \<in> set (fst (snd ?runa))
        \<and> map_of req ''tsconfigRaw'' = Some (JObject example_config)"
    by blast
  show ?thesis by (rule conjI[OF b1 conjI[OF b2 a2]])
qed

lemma cached_tsconfig_events:
  assumes "cached_tsconfig E full c = (r, evs0, c1)"
  shows "\<And>w. EmitWarning w \<notin> set evs0"
    and "\<And>src req. Transform src req \<notin> set evs0"
  using assms
  by (auto simp: cached_tsconfig_def Let_def split: option.splits sum.splits prod.splits)

lemma explicit_tsconfig_warning:
  assumes "select_transform E (implementation (getOptions ctx)) = Inr f"
    and "\<not> has_key (esbuildTransformOptions (getOptions ctx)) ''tsconfigRaw''"
    and "\<not> isDependency E (resourcePath ctx)"
    and "tsconfig (getOptions ctx) = Some p" and "p \<noteq> []"
    and "cached_tsconfig E (path_resolve E p) c = (Inr t, evs0, c1)"
    and "ESBuildLoader E ctx source c = (out, evs, c')"
  shows "(\<exists>req. Transform source req \<in> set evs)
     \<and> (\<forall>src req. Transform src req \<in> set evs \<longrightarrow>
           map_of req ''tsconfigRaw'' = Some (JObject (config t)))
     \<and> (EmitWarning (Error (mismatch_message (path_resolve E p) (resourcePath ctx))) \<in> set evs
          \<longleftrightarrow> \<not> files_match E t (resourcePath ctx))
     \<and> (\<forall>w. EmitWarning w \<in> set evs \<longrightarrow>
           w = Error (mismatch_message (path_resolve E p) (resourcePath ctx)))"
proof -
  let ?w = "EmitWarning (Error (mismatch_message (path_resolve E p) (resourcePath ctx)))"
  let ?warn = "if files_match E t (resourcePath ctx) then [] else [?w]"
  let ?t' = "AList.update ''tsconfigRaw'' (JObject (config t)) (base_transformOptions ctx)"
  have r: "resolve_tsconfig E ctx (base_transformOptions ctx) c = (Inr ?t', evs0 @ ?warn, c1)"
    using resolve_explicit[OF base_no_tsconfigRaw[OF assms(2)] assms(3,4,5), where c=c] assms(6)
    by (simp add: explicit_branch_def createFilesMatcher_def Let_def)
  obtain o2 e2 where rt: "run_transform E f source (with_supported ?t') = (o2, e2)"
    by (cases "run_transform E f source (with_supported ?t')")
  from assms(1,7) r rt have eq: "evs = evs0 @ ?warn @ e2"
    by (simp add: ESBuildLoader_def)
  have raw: "map_of (with_supported ?t') ''tsconfigRaw'' = Some (JObject (config t))"
    by (simp add: with_supported_tsconfigRaw update_conv')
  note q = run_transform_requests[OF rt]
  note z = cached_tsconfig_events[OF assms(6)]
  have "\<exists>req. Transform source req \<in> set evs" using eq q(1) by auto
  moreover have "\<forall>src req. Transform src req \<in> set evs \<longrightarrow>
      map_of req ''tsconfigRaw'' = Some (JObject (config t))"
    using eq q(2) z(2) raw by (auto split: if_splits)
  moreover have "?w \<in> set evs \<longleftrightarrow> \<not> files_match E t (resourcePath ctx)"
    using eq q(3) z(1) by (auto split: if_splits)
  moreover have "\<forall>w. EmitWarning w \<in> set evs \<longrightarrow>
      w = Error (mismatch_message (path_resolve E p) (resourcePath ctx))"
    using eq q(3) z(1) by (auto split: if_splits)
  ultimately show ?thesis by blast
qed

text \<open>
  C1. A file outside \<open>node_modules\<close>, with a non-empty \<open>tsconfig\<close> option, no \<open>tsconfigRaw\<close>
  among the options and a usable transformer, whose configuration record \<open>t\<close> comes from the
  cache or from a parse that succeeds: the transformer is called, every request it receives
  carries \<open>tsconfigRaw = config t\<close> whether or not the file matches, and the warning, whose
  text is spelled out below, is emitted exactly when the file does not match. Every warning
  of the run is that one, and its message contains both the resolved configuration path and
  the path of the file.
\<close>

theorem explicit_tsconfig_applied:
  assumes "select_transform E (implementation (getOptions ctx)) = Inr f"
    and "\<not> has_key (esbuildTransformOptions (getOptions ctx)) ''tsconfigRaw''"
    and "\<not> isDependency E (resourcePath ctx)"
    and "tsconfig (getOptions ctx) = Some p" and "p \<noteq> []"
    and "cached_tsconfig E (path_resolve E p) c = (Inr t, evs0, c1)"
    and "ESBuildLoader E ctx source c = (out, evs, c')"
  shows \<open>(\<exists>req. Transform source req \<in> set evs)
     \<and> (\<forall>src req. Transform src req \<in> set evs \<longrightarrow>
           map_of req ''tsconfigRaw'' = Some (JObject (config t)))
     \<and> (EmitWarning
           (Error (''esbuild-loader] The specified tsconfig at "'' @ path_resolve E p
                 @ ''" was applied to the file "'' @ resourcePath ctx
                 @ ''" but does not match its "include" patterns''))
          \<in> set evs
          \<longleftrightarrow> \<not> files_match E t (resourcePath ctx))
     \<and> (\<forall>w. EmitWarning w \<in> set evs \<longrightarrow>
           w = Error (''esbuild-loader] The specified tsconfig at "'' @ path_resolve E p
                 @ ''" was applied to the file "'' @ resourcePath ctx
                 @ ''" but does not match its "include" patterns'')
           \<and> str_includes (message w) (path_resolve E p)
           \<and> str_includes (message w) (resourcePath ctx))\<close>
proof -
  let ?M = "mismatch_message (path_resolve E p) (resourcePath ctx)"
  note a = explicit_tsconfig_warning[OF assms]
  note n = mismatch_message_names_paths[of "path_resolve E p" "resourcePath ctx"]
  from a have a1: "\<exists>req. Transform source req \<in> set evs"
    and a2: "\<forall>src req. Transform src req \<in> set evs \<longrightarrow>
           map_of req ''tsconfigRaw'' = Some (JObject (config t))"
    and a3: "EmitWarning (Error ?M) \<in> set evs \<longleftrightarrow> \<not> files_match E t (resourcePath ctx)"
    and a4: "\<forall>w. EmitWarning w \<in> set evs \<longrightarrow> w = Error ?M"
    by blast+
  have a5: "\<forall>w. EmitWarning w \<in> set evs \<longrightarrow>
      w = Error ?M \<and> str_includes (message w) (path_resolve E p)
      \<and> str_includes (message w) (resourcePath ctx)"
  proof (intro allI impI)
    fix w assume "EmitWarning w \<in> set evs"
    with a4 have w: "w = Error ?M" by blast
    then have "message w = ?M" by simp
    with w n show "w = Error ?M \<and> str_includes (message w) (path_resolve E p)
      \<and> str_includes (message w) (resourcePath ctx)" by simp
  qed
  have "(\<exists>req. Transform source req \<in> set evs)
     \<and> (\<forall>src req. Transform src req \<in> set evs \<longrightarrow>
           map_of req ''tsconfigRaw'' = Some (JObject (config t)))
     \<and> (EmitWarning (Error ?M) \<in> set evs \<longleftrightarrow> \<not> files_match E t (resourcePath ctx))
     \<and> (\<forall>w. EmitWarning w \<in> set evs \<longrightarrow>
           w = Error ?M \<and> str_includes (message w) (path_resolve E p)
           \<and> str_includes (message w) (resourcePath ctx))"
    by (rule conjI[OF a1 conjI[OF a2 conjI[OF a3 a5]]])
  then show ?thesis unfolding mismatch_message_def .
qed

theorem explicit_tsconfig_applied_witness:
  \<open>EmitWarning
     (Error ''esbuild-loader] The specified tsconfig at "/project/tsconfig.build.json" was applied to the file "/project/src/other.ts" but does not match its "include" patterns'')
     \<in> set (fst (snd (ESBuildLoader example_env
            (example_context ''/project/src/other.ts'' explicit_options) ''let a = 1'' empty_cache)))
   \<and> (\<exists>req. Transform ''let a = 1'' req
          \<in> set (fst (snd (ESBuildLoader example_env
            (example_context ''/project/src/other.ts'' explicit_options) ''let a = 1'' empty_cache)))
        \<and> map_of req ''tsconfigRaw'' = Some (JObject example_config))\<close>
proof -
  let ?ctx = "example_context ''/project/src/other.ts'' explicit_options"
  let ?run = "ESBuildLoader example_env ?ctx ''let a = 1'' empty_cache"
  let ?K = "''esbuild-loader:/project/tsconfig.build.json''"
  have h1: "select_transform example_env (implementation (getOptions ?ctx))
      = Inr (defaultEsbuildTransform example_env)"
    by (simp add: example_context_def explicit_options_def no_options_def select_transform_def)
  have h2: "\<not> has_key (esbuildTransformOptions (getOptions ?ctx)) ''tsconfigRaw''"
    by (simp add: example_context_def explicit_options_def no_options_def has_key_def)
  have r: "resourcePath ?ctx = ''/project/src/other.ts''" by (simp add: example_context_def)
  have h3: "\<not> isDependency example_env (resourcePath ?ctx)"
    unfolding r by (simp add: example_env_def isDependency_def)
  have h4: "tsconfig (getOptions ?ctx) = Some ''./tsconfig.build.json''"
    by (simp add: example_context_def explicit_options_def no_options_def)
  have h5: "''./tsconfig.build.json'' \<noteq> []" by simp
  have p: "path_resolve example_env ''./tsconfig.build.json'' = ''/project/tsconfig.build.json''"
    by (simp add: example_env_def)
  have h6: "cached_tsconfig example_env (path_resolve example_env ''./tsconfig.build.json'') empty_cache
      = (Inr build_config_record,
         [CacheGet ?K, ParseTsconfig ''/project/tsconfig.build.json'', CacheSet ?K build_config_record],
         empty_cache(?K \<mapsto> build_config_record))"
    unfolding p
    by (simp add: example_env_def empty_cache_def build_config_record_def cached_tsconfig_def Let_def)
  have h7: "?run = (fst ?run, fst (snd ?run), snd (snd ?run))" by simp
  have m: "\<not> files_match example_env build_config_record ''/project/src/other.ts''"
    by (simp add: example_env_def)
  have c: "config build_config_record = example_config" by (simp add: build_config_record_def)
  have msg: \<open>''esbuild-loader] The specified tsconfig at "'' @ ''/project/tsconfig.build.json''
        @ ''" was applied to the file "'' @ ''/project/src/other.ts''
        @ ''" but does not match its "include" patterns''
      = ''esbuild-loader] The specified tsconfig at "/project/tsconfig.build.json" was applied to the file "/project/src/other.ts" but does not match its "include" patterns''\<close>
    by simp
  note f = explicit_tsconfig_applied[OF h1 h2 h3 h4 h5 h6 h7, unfolded p r c msg]
  from f m show ?thesis by blast
qed

lemma resolve_dependency:
  assumes "isDependency E (resourcePath ctx)"
  shows "resolve_tsconfig E ctx t c
     = (if \<not> has_key t ''tsconfigRaw'' \<and> tsExtensionsPattern_test (resourcePath ctx)
        then discovery_branch E True (resourcePath ctx) t c
        else (Inr t, [], c))"
  using assms by (simp add: resolve_tsconfig_def Let_def split: option.splits)

lemma discovery_branch_events:
  assumes "discovery_branch E isDep file t c = (r, evs, c')"
  shows "c' = snd (getTsconfig E file ''tsconfig.json'' c)"
    and "\<exists>evs'. evs = GetTsconfig file ''tsconfig.json'' # evs'"
    and "\<And>k. CacheGet k \<notin> set evs"
    and "\<And>k v. CacheSet k v \<notin> set evs"
    and "\<And>p. ParseTsconfig p \<notin> set evs"
    and "\<And>p q. EmitWarning (Error (mismatch_message p q)) \<notin> set evs"
  using assms
  by (auto simp: discovery_branch_def Let_def mismatch_message_def parse_error_message_def
      split: sum.splits option.splits prod.splits if_splits)

text \<open>
  C8. For a file whose path contains \<open>/node_modules/\<close>, no run reads or writes the loader's
  cache entry, calls \<open>parseTsconfig\<close> or emits the mismatch warning, whatever the \<open>tsconfig\<close>
  option; and when the file has a TypeScript extension, the options have no \<open>tsconfigRaw\<close> and
  the transformer is usable, the run starts with the call of \<open>getTsconfig\<close> on the file.
\<close>

theorem dependency_uses_discovery:
  assumes "isDependency E (resourcePath ctx)"
    and "ESBuildLoader E ctx source c = (out, evs, c')"
  shows "(\<forall>k. CacheGet k \<notin> set evs) \<and> (\<forall>k v. CacheSet k v \<notin> set evs)
     \<and> (\<forall>p. ParseTsconfig p \<notin> set evs)
     \<and> (\<forall>p q. EmitWarning (Error (mismatch_message p q)) \<notin> set evs)
     \<and> (tsExtensionsPattern_test (resourcePath ctx)
          \<and> \<not> has_key (esbuildTransformOptions (getOptions ctx)) ''tsconfigRaw''
          \<and> (\<exists>f. select_transform E (implementation (getOptions ctx)) = Inr f)
          \<longrightarrow> (\<exists>evs'. evs = GetTsconfig (resourcePath ctx) ''tsconfig.json'' # evs')
              \<and> c' = snd (getTsconfig E (resourcePath ctx) ''tsconfig.json'' c))"
  using assms(2)
proof (cases rule: loader_cases)
  case (invalid ty)
  then show ?thesis by simp
next
  case (stopped f)
  show ?thesis
  proof (cases "\<not> has_key (base_transformOptions ctx) ''tsconfigRaw'' \<and> tsExtensionsPattern_test (resourcePath ctx)")
    case True
    with stopped(2) resolve_dependency[OF assms(1), of "base_transformOptions ctx" c]
    have d: "discovery_branch E True (resourcePath ctx) (base_transformOptions ctx) c = (Inl out, evs, c')"
      by simp
    from discovery_branch_events[OF d] show ?thesis by simp
  next
    case False
    with stopped(2) resolve_dependency[OF assms(1), of "base_transformOptions ctx" c]
    show ?thesis by simp
  qed
next
  case (transformed f t' evs_r evs_t)
  note q = run_transform_requests[OF transformed(3)]
  show ?thesis
  proof (cases "\<not> has_key (base_transformOptions ctx) ''tsconfigRaw'' \<and> tsExtensionsPattern_test (resourcePath ctx)")
    case True
    with transformed(2) resolve_dependency[OF assms(1), of "base_transformOptions ctx" c]
    have d: "discovery_branch E True (resourcePath ctx) (base_transformOptions ctx) c = (Inr t', evs_r, c')"
      by simp
    note z = discovery_branch_events[OF d]
    from z(2) obtain evs' where "evs_r = GetTsconfig (resourcePath ctx) ''tsconfig.json'' # evs'" by blast
    then have "evs = GetTsconfig (resourcePath ctx) ''tsconfig.json'' # (evs' @ evs_t)"
      using transformed(4) by simp
    then have "\<exists>evs'. evs = GetTsconfig (resourcePath ctx) ''tsconfig.json'' # evs'" by blast
    then show ?thesis using z(1,3,4,5,6) q transformed(4) by simp
  next
    case False
    with transformed(2) resolve_dependency[OF assms(1), of "base_transformOptions ctx" c]
    have "evs_r = []" by simp
    moreover from False have "\<not> (tsExtensionsPattern_test (resourcePath ctx)
          \<and> \<not> has_key (esbuildTransformOptions (getOptions ctx)) ''tsconfigRaw'')"
      by (auto simp: has_key_def map_of_base_tsconfigRaw)
    ultimately show ?thesis using q transformed(4) by auto
  qed
qed

theorem dependency_uses_discovery_witness:
  "(\<forall>p. ParseTsconfig p \<notin> set (fst (snd (ESBuildLoader example_env
        (example_context ''/project/node_modules/pkg/index.ts'' explicit_options)
        ''let a = 1'' empty_cache))))
   \<and> (\<forall>k. CacheGet k \<notin> set (fst (snd (ESBuildLoader example_env
        (example_context ''/project/node_modules/pkg/index.ts'' explicit_options)
        ''let a = 1'' empty_cache))))
   \<and> (\<exists>evs'. fst (snd (ESBuildLoader example_env
        (example_context ''/project/node_modules/pkg/index.ts'' explicit_options)
        ''let a = 1'' empty_cache))
      = GetTsconfig ''/project/node_modules/pkg/index.ts'' ''tsconfig.json'' # evs')"
proof -
  let ?ctx = "example_context ''/project/node_modules/pkg/index.ts'' explicit_options"
  let ?run = "ESBuildLoader example_env ?ctx ''let a = 1'' empty_cache"
  have h1: "isDependency example_env (resourcePath ?ctx)" by (simp add: example_env_def example_context_def no_options_def explicit_options_def empty_cache_def
        select_transform_def has_key_def isDependency_def tsExtensionsPattern_test_def endsWith_def
        Let_def)
  have h2: "?run = (fst ?run, fst (snd ?run), snd (snd ?run))" by simp
  have a: "tsExtensionsPattern_test (resourcePath ?ctx)
      \<and> \<not> has_key (esbuildTransformOptions (getOptions ?ctx)) ''tsconfigRaw''
      \<and> (\<exists>f. select_transform example_env (implementation (getOptions ?ctx)) = Inr f)"
    by (simp add: example_env_def example_context_def no_options_def explicit_options_def empty_cache_def
        select_transform_def has_key_def isDependency_def tsExtensionsPattern_test_def endsWith_def
        Let_def)
  have r: "resourcePath ?ctx = ''/project/node_modules/pkg/index.ts''" by (simp add: example_env_def example_context_def no_options_def explicit_options_def empty_cache_def
        select_transform_def has_key_def isDependency_def tsExtensionsPattern_test_def endsWith_def
        Let_def)
  from dependency_uses_discovery[OF h1 h2] a show ?thesis unfolding r by blast
qed

lemma cached_tsconfig_hit:
  "c (''esbuild-loader:'' @ full) = Some t
   \<Longrightarrow> cached_tsconfig E full c = (Inr t, [CacheGet (''esbuild-loader:'' @ full)], c)"
  by (simp add: cached_tsconfig_def)

lemma cached_tsconfig_stores:
  assumes "cached_tsconfig E full c = (Inr t, evs0, c1)"
  shows "c1 (''esbuild-loader:'' @ full) = Some t"
  using assms
  by (auto simp: cached_tsconfig_def Let_def split: option.splits sum.splits prod.splits)

lemma cached_tsconfig_parse_count:
  assumes "cached_tsconfig E full c = (r, evs0, c1)"
  shows "parse_count p evs0 \<le> 1"
  using assms
  by (auto simp: cached_tsconfig_def parse_count_def Let_def split: option.splits sum.splits prod.splits)

lemma cached_tsconfig_no_parse:
  assumes "cached_tsconfig E full' c = (r, evs0, c1)"
    and "c (''esbuild-loader:'' @ full) \<noteq> None"
  shows "ParseTsconfig full \<notin> set evs0"
  using assms
  by (auto simp: cached_tsconfig_def Let_def split: option.splits sum.splits prod.splits)

lemma cached_tsconfig_keeps:
  assumes "cached_tsconfig E full' c = (r, evs0, c1)"
    and "\<And>p c. snd (parseTsconfig E p c) k = c k"
    and "c k = Some t"
  shows "c1 k = Some t"
proof (cases "c (''esbuild-loader:'' @ full')")
  case None
  then have ne: "''esbuild-loader:'' @ full' \<noteq> k" using assms(3) by auto
  obtain pr pc where p: "parseTsconfig E full' c = (pr, pc)" by (cases "parseTsconfig E full' c")
  with assms(2)[of full' c] assms(3) have "pc k = Some t" by simp
  with assms(1) None p ne show ?thesis
    by (auto simp: cached_tsconfig_def Let_def split: sum.splits)
next
  case (Some a)
  with assms(1,3) show ?thesis by (simp add: cached_tsconfig_def)
qed

lemma resolve_parse_count:
  assumes "resolve_tsconfig E ctx t c = (r, evs, c')"
  shows "parse_count p evs \<le> 1"
proof -
  have d: "parse_count p evs = 0"
    if "discovery_branch E isDep rp t c = (r, evs, c')" for isDep rp
    using that
    by (auto simp: discovery_branch_def parse_count_def Let_def
        split: sum.splits option.splits prod.splits if_splits)
  have e: "parse_count p evs \<le> 1"
    if x: "explicit_branch E tp rp t c = (r, evs, c')" for tp rp
  proof -
    obtain r0 e0 c0 where ct: "cached_tsconfig E (path_resolve E tp) c = (r0, e0, c0)"
      by (cases "cached_tsconfig E (path_resolve E tp) c")
    from cached_tsconfig_parse_count[OF ct] have "parse_count p e0 \<le> 1" .
    with x ct show ?thesis
      by (auto simp: explicit_branch_def parse_count_def Let_def split: sum.splits if_splits)
  qed
  from assms d e show ?thesis
    by (auto simp: resolve_tsconfig_def Let_def parse_count_def split: option.splits if_splits)
qed

lemma resolve_no_parse:
  assumes "resolve_tsconfig E ctx t c = (r, evs, c')"
    and "c (''esbuild-loader:'' @ full) \<noteq> None"
  shows "ParseTsconfig full \<notin> set evs"
proof -
  have d: "ParseTsconfig full \<notin> set evs"
    if "discovery_branch E isDep rp t c = (r, evs, c')" for isDep rp
    using discovery_branch_events(5)[OF that] .
  have e: "ParseTsconfig full \<notin> set evs"
    if x: "explicit_branch E tp rp t c = (r, evs, c')" for tp rp
  proof -
    obtain r0 e0 c0 where ct: "cached_tsconfig E (path_resolve E tp) c = (r0, e0, c0)"
      by (cases "cached_tsconfig E (path_resolve E tp) c")
    from cached_tsconfig_no_parse[OF ct assms(2)] have "ParseTsconfig full \<notin> set e0" .
    with x ct show ?thesis
      by (auto simp: explicit_branch_def Let_def split: sum.splits if_splits)
  qed
  from assms(1) d e show ?thesis
    by (auto simp: resolve_tsconfig_def Let_def split: option.splits if_splits)
qed

lemma resolve_keeps:
  assumes "resolve_tsconfig E ctx t c = (r, evs, c')"
    and "\<And>p c. snd (parseTsconfig E p c) k = c k"
    and "\<And>p n c. snd (getTsconfig E p n c) k = c k"
    and "c k = Some v"
  shows "c' k = Some v"
proof -
  have d: "c' k = Some v"
    if x: "discovery_branch E isDep rp t c = (r, evs, c')" for isDep rp
    using discovery_branch_events(1)[OF x] assms(3)[of rp "''tsconfig.json''" c] assms(4) by simp
  have e: "c' k = Some v"
    if x: "explicit_branch E tp rp t c = (r, evs, c')" for tp rp
  proof -
    obtain r0 e0 c0 where ct: "cached_tsconfig E (path_resolve E tp) c = (r0, e0, c0)"
      by (cases "cached_tsconfig E (path_resolve E tp) c")
    from cached_tsconfig_keeps[OF ct assms(2) assms(4)] have "c0 k = Some v" .
    with x ct show ?thesis
      by (auto simp: explicit_branch_def Let_def split: sum.splits if_splits)
  qed
  from assms(1,4) d e show ?thesis
    by (auto simp: resolve_tsconfig_def Let_def split: option.splits if_splits)
qed

lemma run_transform_parse_count:
  "run_transform E f source req = (out, evs_t) \<Longrightarrow> parse_count p evs_t = 0"
  using run_transform_requests(6)[of E f source req out evs_t]
  by (auto simp: parse_count_def filter_empty_conv)

lemma parse_count_append: "parse_count p (xs @ ys) = parse_count p xs + parse_count p ys"
  by (simp add: parse_count_def)

lemma parse_count_0_iff: "parse_count p evs = 0 \<longleftrightarrow> ParseTsconfig p \<notin> set evs"
  by (auto simp: parse_count_def filter_empty_conv)

lemma loader_parse_count:
  assumes "ESBuildLoader E ctx source c = (out, evs, c')"
  shows "parse_count p evs \<le> 1"
  using assms
proof (cases rule: loader_cases)
  case (invalid ty)
  then show ?thesis by (simp add: parse_count_def)
next
  case (stopped f)
  then show ?thesis using resolve_parse_count by blast
next
  case (transformed f t' evs_r evs_t)
  then show ?thesis
    using resolve_parse_count[OF transformed(2), of p] run_transform_parse_count[OF transformed(3), of p]
    by (simp add: parse_count_append)
qed

lemma loader_no_parse:
  assumes "ESBuildLoader E ctx source c = (out, evs, c')"
    and "c (''esbuild-loader:'' @ full) \<noteq> None"
  shows "ParseTsconfig full \<notin> set evs"
  using assms(1)
proof (cases rule: loader_cases)
  case (invalid ty)
  then show ?thesis by simp
next
  case (stopped f)
  from resolve_no_parse[OF stopped(2) assms(2)] show ?thesis .
next
  case (transformed f t' evs_r evs_t)
  then show ?thesis
    using resolve_no_parse[OF transformed(2) assms(2)] run_transform_requests(6)[OF transformed(3)]
    by simp
qed

lemma loader_keeps:
  assumes "ESBuildLoader E ctx source c = (out, evs, c')"
    and "\<And>p c. snd (parseTsconfig E p c) k = c k"
    and "\<And>p n c. snd (getTsconfig E p n c) k = c k"
    and "c k = Some v"
  shows "c' k = Some v"
  using assms(1)
proof (cases rule: loader_cases)
  case (invalid ty)
  then show ?thesis using assms(4) by simp
next
  case (stopped f)
  from resolve_keeps[OF stopped(2) assms(2) assms(3) assms(4)] show ?thesis .
next
  case (transformed f t' evs_r evs_t)
  from resolve_keeps[OF transformed(2) assms(2) assms(3) assms(4)] show ?thesis .
qed

lemma build_keeps_and_no_parse:
  assumes "\<And>p c. snd (parseTsconfig E p c) (''esbuild-loader:'' @ full) = c (''esbuild-loader:'' @ full)"
    and "\<And>p n c. snd (getTsconfig E p n c) (''esbuild-loader:'' @ full) = c (''esbuild-loader:'' @ full)"
  shows "build E files c = (evs, c') \<Longrightarrow> c (''esbuild-loader:'' @ full) = Some v
     \<Longrightarrow> c' (''esbuild-loader:'' @ full) = Some v \<and> ParseTsconfig full \<notin> set evs"
proof (induction files arbitrary: c evs c')
  case Nil
  then show ?case by simp
next
  case (Cons a files)
  obtain ctx source where a: "a = (ctx, source)" by (cases a)
  obtain o1 e1 c1 where r1: "ESBuildLoader E ctx source c = (o1, e1, c1)"
    by (cases "ESBuildLoader E ctx source c")
  obtain e2 c2 where r2: "build E files c1 = (e2, c2)" by (cases "build E files c1")
  from Cons.prems(1) a r1 r2 have eq: "evs = e1 @ e2" "c' = c2" by simp_all
  have k1: "c1 (''esbuild-loader:'' @ full) = Some v"
    using loader_keeps[OF r1 assms(1) assms(2) Cons.prems(2)] .
  have n1: "ParseTsconfig full \<notin> set e1"
    using loader_no_parse[OF r1] Cons.prems(2) by simp
  from Cons.IH[OF r2 k1] eq n1 show ?case by simp
qed

lemma explicit_run:
  assumes "select_transform E (implementation (getOptions ctx)) = Inr f"
    and "\<not> has_key (esbuildTransformOptions (getOptions ctx)) ''tsconfigRaw''"
    and "\<not> isDependency E (resourcePath ctx)"
    and "tsconfig (getOptions ctx) = Some p" and "p \<noteq> []"
    and "cached_tsconfig E (path_resolve E p) c = (Inr t, evs0, c1)"
    and "ESBuildLoader E ctx source c = (out, evs, c')"
  shows "c' = c1"
    and "\<exists>evs_t. run_transform E f source
            (with_supported (AList.update ''tsconfigRaw'' (JObject (config t)) (base_transformOptions ctx)))
            = (out, evs_t)
          \<and> evs = evs0
              @ (if files_match E t (resourcePath ctx) then []
                 else [EmitWarning (Error (mismatch_message (path_resolve E p) (resourcePath ctx)))])
              @ evs_t"
proof -
  let ?w = "EmitWarning (Error (mismatch_message (path_resolve E p) (resourcePath ctx)))"
  let ?warn = "if files_match E t (resourcePath ctx) then [] else [?w]"
  let ?t' = "AList.update ''tsconfigRaw'' (JObject (config t)) (base_transformOptions ctx)"
  have r: "resolve_tsconfig E ctx (base_transformOptions ctx) c = (Inr ?t', evs0 @ ?warn, c1)"
    using resolve_explicit[OF base_no_tsconfigRaw[OF assms(2)] assms(3,4,5), where c=c] assms(6)
    by (simp add: explicit_branch_def createFilesMatcher_def Let_def)
  obtain o2 e2 where rt: "run_transform E f source (with_supported ?t') = (o2, e2)"
    by (cases "run_transform E f source (with_supported ?t')")
  from assms(1,7) r rt show "c' = c1" by (simp add: ESBuildLoader_def)
  from assms(1,7) r rt have "o2 = out" "evs = evs0 @ ?warn @ e2"
    by (simp_all add: ESBuildLoader_def)
  with rt show "\<exists>evs_t. run_transform E f source (with_supported ?t') = (out, evs_t)
      \<and> evs = evs0 @ ?warn @ evs_t" by blast
qed

text \<open>
  A parse that throws stores nothing: the run is rejected with what \<open>parseTsconfig\<close> threw,
  after one cache read and one parse, and the cache is the one \<open>parseTsconfig\<close> left. A later
  request of a path that is still not in the cache calls \<open>parseTsconfig\<close> on it again.
\<close>

lemma throwing_parse_stores_nothing:
  assumes "select_transform E (implementation (getOptions ctx)) = Inr f"
    and "\<not> has_key (esbuildTransformOptions (getOptions ctx)) ''tsconfigRaw''"
    and "\<not> isDependency E (resourcePath ctx)"
    and "tsconfig (getOptions ctx) = Some p" and "p \<noteq> []"
    and "c (''esbuild-loader:'' @ path_resolve E p) = None"
    and "parseTsconfig E (path_resolve E p) c = (Inl e, c1)"
    and "ESBuildLoader E ctx source c = (out, evs, c')"
  shows "out = Rejected e"
    and "evs = [CacheGet (''esbuild-loader:'' @ path_resolve E p), ParseTsconfig (path_resolve E p)]"
    and "c' = c1"
proof -
  have "resolve_tsconfig E ctx (base_transformOptions ctx) c
      = (Inl (Rejected e),
         [CacheGet (''esbuild-loader:'' @ path_resolve E p), ParseTsconfig (path_resolve E p)], c1)"
    using resolve_explicit[OF base_no_tsconfigRaw[OF assms(2)] assms(3,4,5), where c=c] assms(6,7)
    by (simp add: explicit_branch_def cached_tsconfig_def Let_def)
  with assms(1,8) show "out = Rejected e"
    and "evs = [CacheGet (''esbuild-loader:'' @ path_resolve E p), ParseTsconfig (path_resolve E p)]"
    and "c' = c1"
    by (simp_all add: ESBuildLoader_def)
qed

lemma uncached_path_is_parsed:
  assumes "select_transform E (implementation (getOptions ctx)) = Inr f"
    and "\<not> has_key (esbuildTransformOptions (getOptions ctx)) ''tsconfigRaw''"
    and "\<not> isDependency E (resourcePath ctx)"
    and "tsconfig (getOptions ctx) = Some p" and "p \<noteq> []"
    and "c (''esbuild-loader:'' @ path_resolve E p) = None"
    and "ESBuildLoader E ctx source c = (out, evs, c')"
  shows "ParseTsconfig (path_resolve E p) \<in> set evs"
proof -
  obtain r0 e0 c0 where ct: "cached_tsconfig E (path_resolve E p) c = (r0, e0, c0)"
    by (cases "cached_tsconfig E (path_resolve E p) c")
  with assms(6) have p0: "ParseTsconfig (path_resolve E p) \<in> set e0"
    by (auto simp: cached_tsconfig_def Let_def split: sum.splits prod.splits)
  obtain r1 e1 c1 where ex: "explicit_branch E p (resourcePath ctx) (base_transformOptions ctx) c = (r1, e1, c1)"
    by (cases "explicit_branch E p (resourcePath ctx) (base_transformOptions ctx) c")
  with ct p0 have p1: "ParseTsconfig (path_resolve E p) \<in> set e1"
    by (auto simp: explicit_branch_def Let_def split: sum.splits if_splits)
  have r: "resolve_tsconfig E ctx (base_transformOptions ctx) c = (r1, e1, c1)"
    using resolve_explicit[OF base_no_tsconfigRaw[OF assms(2)] assms(3,4,5), where c=c] ex by simp
  from assms(7) show ?thesis
  proof (cases rule: loader_cases)
    case (invalid ty)
    with assms(1) show ?thesis by simp
  next
    case (stopped f')
    with r p1 show ?thesis by simp
  next
    case (transformed f' t' evs_r evs_t)
    with r p1 show ?thesis by simp
  qed
qed

lemma throwing_parse_is_repeated:
  assumes "select_transform E (implementation (getOptions ctx1)) = Inr f1"
    and "\<not> has_key (esbuildTransformOptions (getOptions ctx1)) ''tsconfigRaw''"
    and "\<not> isDependency E (resourcePath ctx1)"
    and "tsconfig (getOptions ctx1) = Some p1" and "p1 \<noteq> []" and "path_resolve E p1 = full"
    and "c (''esbuild-loader:'' @ full) = None"
    and "parseTsconfig E full c = (Inl e, c1)"
    and "c1 (''esbuild-loader:'' @ full) = None"
    and "ESBuildLoader E ctx1 source1 c = (out1, evs1, c1')"
    and "select_transform E (implementation (getOptions ctx2)) = Inr f2"
    and "\<not> has_key (esbuildTransformOptions (getOptions ctx2)) ''tsconfigRaw''"
    and "\<not> isDependency E (resourcePath ctx2)"
    and "tsconfig (getOptions ctx2) = Some p2" and "p2 \<noteq> []" and "path_resolve E p2 = full"
    and "ESBuildLoader E ctx2 source2 c1' = (out2, evs2, c2)"
  shows "out1 = Rejected e" and "c1' = c1"
    and "parse_count full (evs1 @ evs2) = 1 + parse_count full evs2"
    and "ParseTsconfig full \<in> set evs2"
    and "2 \<le> parse_count full (evs1 @ evs2)"
proof -
  have k: "c (''esbuild-loader:'' @ path_resolve E p1) = None" using assms(6,7) by simp
  have q: "parseTsconfig E (path_resolve E p1) c = (Inl e, c1)" using assms(6,8) by simp
  note a = throwing_parse_stores_nothing[OF assms(1,2,3,4,5) k q assms(10)]
  show "out1 = Rejected e" by (rule a(1))
  show eq: "c1' = c1" by (rule a(3))
  from a(2) assms(6)
  show cnt: "parse_count full (evs1 @ evs2) = 1 + parse_count full evs2"
    by (simp add: parse_count_def)
  have k2: "c1' (''esbuild-loader:'' @ path_resolve E p2) = None" using assms(9,16) eq by simp
  from uncached_path_is_parsed[OF assms(11,12,13,14,15) k2 assms(17)] assms(16)
  show again: "ParseTsconfig full \<in> set evs2" by simp
  then have "parse_count full evs2 \<noteq> 0" by (simp add: parse_count_0_iff)
  with cnt show "2 \<le> parse_count full (evs1 @ evs2)" by arith
qed

text \<open>
  C6, as amended. Let the first request of an explicit path obtain a record \<open>t\<close> (from the
  cache or from a parse that succeeds), and let the get-tsconfig functions leave the loader's
  cache entry for that path in place. Then, after any files processed in between, a later
  request of the same resolved path reads the cache, does not call \<open>parseTsconfig\<close>, injects
  \<open>config t\<close>, and the whole sequence calls \<open>parseTsconfig\<close> on that path at most once.
\<close>

theorem parsed_config_is_cached:
  assumes "\<And>p c. snd (parseTsconfig E p c) (''esbuild-loader:'' @ full) = c (''esbuild-loader:'' @ full)"
    and "\<And>p n c. snd (getTsconfig E p n c) (''esbuild-loader:'' @ full) = c (''esbuild-loader:'' @ full)"
    and "select_transform E (implementation (getOptions ctx1)) = Inr f1"
    and "\<not> has_key (esbuildTransformOptions (getOptions ctx1)) ''tsconfigRaw''"
    and "\<not> isDependency E (resourcePath ctx1)"
    and "tsconfig (getOptions ctx1) = Some p1" and "p1 \<noteq> []" and "path_resolve E p1 = full"
    and "cached_tsconfig E full c = (Inr t, evs0, c0)"
    and "ESBuildLoader E ctx1 source1 c = (out1, evs1, c1)"
    and "build E files c1 = (evs_mid, c2)"
    and "select_transform E (implementation (getOptions ctx2)) = Inr f2"
    and "\<not> has_key (esbuildTransformOptions (getOptions ctx2)) ''tsconfigRaw''"
    and "\<not> isDependency E (resourcePath ctx2)"
    and "tsconfig (getOptions ctx2) = Some p2" and "p2 \<noteq> []" and "path_resolve E p2 = full"
    and "ESBuildLoader E ctx2 source2 c2 = (out2, evs2, c3)"
  shows "parse_count full (evs1 @ evs_mid @ evs2) \<le> 1
     \<and> ParseTsconfig full \<notin> set evs_mid
     \<and> ParseTsconfig full \<notin> set evs2
     \<and> CacheGet (''esbuild-loader:'' @ full) \<in> set evs2
     \<and> (\<exists>req. Transform source2 req \<in> set evs2)
     \<and> (\<forall>src req. Transform src req \<in> set evs2 \<longrightarrow>
           map_of req ''tsconfigRaw'' = Some (JObject (config t)))
     \<and> c3 (''esbuild-loader:'' @ full) = Some t"
proof -
  let ?K = "''esbuild-loader:'' @ full"
  have ct1: "cached_tsconfig E (path_resolve E p1) c = (Inr t, evs0, c0)"
    using assms(8,9) by simp
  have c1: "c1 = c0"
    using explicit_run(1)[OF assms(3,4,5,6,7) ct1 assms(10)] .
  have k1: "c1 ?K = Some t" using cached_tsconfig_stores[OF assms(9)] c1 by simp
  from build_keeps_and_no_parse[OF assms(1) assms(2) assms(11) k1]
  have k2: "c2 ?K = Some t" and nm: "ParseTsconfig full \<notin> set evs_mid" by simp_all
  have ct2: "cached_tsconfig E (path_resolve E p2) c2 = (Inr t, [CacheGet ?K], c2)"
    using cached_tsconfig_hit[where full=full and c=c2 and t=t and E=E] k2 assms(17) by simp
  have c3: "c3 = c2"
    using explicit_run(1)[OF assms(12,13,14,15,16) ct2 assms(18)] .
  from explicit_run(2)[OF assms(12,13,14,15,16) ct2 assms(18)]
  obtain evs_t where rt: "run_transform E f2 source2
        (with_supported (AList.update ''tsconfigRaw'' (JObject (config t)) (base_transformOptions ctx2)))
        = (out2, evs_t)"
    and e2: "evs2 = [CacheGet ?K]
        @ (if files_match E t (resourcePath ctx2) then []
           else [EmitWarning (Error (mismatch_message (path_resolve E p2) (resourcePath ctx2)))])
        @ evs_t"
    by blast
  note q = run_transform_requests[OF rt]
  have raw: "map_of (with_supported (AList.update ''tsconfigRaw'' (JObject (config t)) (base_transformOptions ctx2)))
      ''tsconfigRaw'' = Some (JObject (config t))"
    by (simp add: with_supported_tsconfigRaw update_conv')
  have n2: "ParseTsconfig full \<notin> set evs2"
    using loader_no_parse[OF assms(18)] k2 by simp
  have "parse_count full (evs1 @ evs_mid @ evs2) \<le> 1"
    using loader_parse_count[OF assms(10), of full] nm n2
    by (simp add: parse_count_append parse_count_0_iff[symmetric])
  moreover have "CacheGet ?K \<in> set evs2" using e2 by simp
  moreover have "\<exists>req. Transform source2 req \<in> set evs2" using e2 q(1) by auto
  moreover have "\<forall>src req. Transform src req \<in> set evs2 \<longrightarrow>
      map_of req ''tsconfigRaw'' = Some (JObject (config t))"
    using e2 q(2) raw by (auto split: if_splits)
  moreover have "c3 ?K = Some t" using c3 k2 by simp
  ultimately show ?thesis using nm n2 by blast
qed

theorem parsed_config_is_cached_witness:
  "parse_count ''/project/tsconfig.build.json''
     (fst (snd first_run) @ fst mid_run @ fst (snd second_run)) \<le> 1
   \<and> ParseTsconfig ''/project/tsconfig.build.json'' \<notin> set (fst (snd second_run))
   \<and> CacheGet ''esbuild-loader:/project/tsconfig.build.json'' \<in> set (fst (snd second_run))
   \<and> snd (snd second_run) ''esbuild-loader:/project/tsconfig.build.json'' = Some build_config_record"
proof -
  let ?full = "''/project/tsconfig.build.json''"
  let ?K = "''esbuild-loader:/project/tsconfig.build.json''"
  let ?ctx1 = "example_context ''/project/src/a.ts'' explicit_options"
  let ?ctx2 = "example_context ''/project/src/other.ts'' explicit_options"
  have f1: "\<And>p c. snd (parseTsconfig example_env p c) (''esbuild-loader:'' @ ?full)
      = c (''esbuild-loader:'' @ ?full)"
    by (simp add: example_env_def)
  have f2: "\<And>p n c. snd (getTsconfig example_env p n c) (''esbuild-loader:'' @ ?full)
      = c (''esbuild-loader:'' @ ?full)"
    by (simp add: example_env_def)
  have p1: "resourcePath ?ctx1 = ''/project/src/a.ts''" by (simp add: example_env_def example_context_def no_options_def explicit_options_def empty_cache_def
        select_transform_def has_key_def isDependency_def tsExtensionsPattern_test_def endsWith_def
        Let_def build_config_record_def)
  have p2: "resourcePath ?ctx2 = ''/project/src/other.ts''" by (simp add: example_env_def example_context_def no_options_def explicit_options_def empty_cache_def
        select_transform_def has_key_def isDependency_def tsExtensionsPattern_test_def endsWith_def
        Let_def build_config_record_def)
  have s1: "select_transform example_env (implementation (getOptions ?ctx1))
      = Inr (defaultEsbuildTransform example_env)"
    by (simp add: example_env_def example_context_def no_options_def explicit_options_def empty_cache_def
        select_transform_def has_key_def isDependency_def tsExtensionsPattern_test_def endsWith_def
        Let_def build_config_record_def)
  have n1: "\<not> has_key (esbuildTransformOptions (getOptions ?ctx1)) ''tsconfigRaw''"
    by (simp add: example_env_def example_context_def no_options_def explicit_options_def empty_cache_def
        select_transform_def has_key_def isDependency_def tsExtensionsPattern_test_def endsWith_def
        Let_def build_config_record_def)
  have d1: "\<not> isDependency example_env (resourcePath ?ctx1)"
    unfolding p1 by (simp add: example_env_def isDependency_def)
  have t1: "tsconfig (getOptions ?ctx1) = Some ''./tsconfig.build.json''" by (simp add: example_env_def example_context_def no_options_def explicit_options_def empty_cache_def
        select_transform_def has_key_def isDependency_def tsExtensionsPattern_test_def endsWith_def
        Let_def build_config_record_def)
  have ne: "''./tsconfig.build.json'' \<noteq> []" by simp
  have pr: "path_resolve example_env ''./tsconfig.build.json'' = ?full"
    by (simp add: example_env_def)
  have ct: "cached_tsconfig example_env ?full empty_cache
      = (Inr build_config_record,
         [CacheGet ?K, ParseTsconfig ?full, CacheSet ?K build_config_record],
         empty_cache(?K \<mapsto> build_config_record))"
    by (simp add: example_env_def example_context_def no_options_def explicit_options_def empty_cache_def
        select_transform_def has_key_def isDependency_def tsExtensionsPattern_test_def endsWith_def
        Let_def build_config_record_def cached_tsconfig_def)
  have r1: "ESBuildLoader example_env ?ctx1 ''let a = 1'' empty_cache
      = (fst first_run, fst (snd first_run), snd (snd first_run))"
    by (simp add: first_run_def)
  have rm: "build example_env mid_files (snd (snd first_run)) = (fst mid_run, snd mid_run)"
    by (simp add: mid_run_def)
  have s2: "select_transform example_env (implementation (getOptions ?ctx2))
      = Inr (defaultEsbuildTransform example_env)"
    by (simp add: example_env_def example_context_def no_options_def explicit_options_def empty_cache_def
        select_transform_def has_key_def isDependency_def tsExtensionsPattern_test_def endsWith_def
        Let_def build_config_record_def)
  have n2: "\<not> has_key (esbuildTransformOptions (getOptions ?ctx2)) ''tsconfigRaw''"
    by (simp add: example_env_def example_context_def no_options_def explicit_options_def empty_cache_def
        select_transform_def has_key_def isDependency_def tsExtensionsPattern_test_def endsWith_def
        Let_def build_config_record_def)
  have d2: "\<not> isDependency example_env (resourcePath ?ctx2)"
    unfolding p2 by (simp add: example_env_def isDependency_def)
  have t2: "tsconfig (getOptions ?ctx2) = Some ''./tsconfig.build.json''" by (simp add: example_env_def example_context_def no_options_def explicit_options_def empty_cache_def
        select_transform_def has_key_def isDependency_def tsExtensionsPattern_test_def endsWith_def
        Let_def build_config_record_def)
  have r2: "ESBuildLoader example_env ?ctx2 ''let o = 3'' (snd mid_run)
      = (fst second_run, fst (snd second_run), snd (snd second_run))"
    by (simp add: second_run_def)
  note f = parsed_config_is_cached[OF f1 f2 s1 n1 d1 t1 ne pr ct r1 rm s2 n2 d2 t2 ne pr r2]
  from f show ?thesis by simp
qed

text \<open>
  C6 as stated fails when the parse throws: nothing is stored (in general, by
  \<open>throwing_parse_is_repeated\<close> above), so two files that name the same missing
  configuration make the loader call \<open>parseTsconfig\<close> on it twice.
\<close>

theorem failed_parse_is_repeated:
  "parse_count ''/project/missing.json''
     (fst (build example_env
        [(example_context ''/project/src/a.ts'' missing_options, ''let a = 1''),
         (example_context ''/project/src/b.ts'' missing_options, ''let b = 2'')]
        empty_cache)) = 2"
  by (simp add: example_env_def example_context_def no_options_def explicit_options_def empty_cache_def
        select_transform_def has_key_def isDependency_def tsExtensionsPattern_test_def endsWith_def
        Let_def missing_options_def ESBuildLoader_def ESBuildLoader_legacy_def resolve_tsconfig_def
        discovery_branch_def explicit_branch_def cached_tsconfig_def createFilesMatcher_def
        base_transformOptions_def legacy_transformOptions_def with_supported_def
        run_transform_def obj_get_def parse_count_def)

text \<open>
  C5. When the options contain the key \<open>tsconfigRaw\<close>, neither loader resolves a
  configuration: no resolver event is recorded, the cache is returned as it was, every
  request sent to the transformer has the caller's value under \<open>tsconfigRaw\<close>, and with a
  usable transformer such a request is sent.
\<close>

theorem caller_tsconfigRaw_skips_resolution:
  assumes "has_key (esbuildTransformOptions (getOptions ctx)) ''tsconfigRaw''"
    and "ESBuildLoader E ctx source c = (out, evs, c')"
    and "ESBuildLoader_legacy E module_tsconfig ctx source = (out_l, evs_l)"
  shows "c' = c \<and> (\<forall>e \<in> set evs. \<not> is_resolver_event e)
     \<and> (\<forall>src req. Transform src req \<in> set evs \<longrightarrow>
           src = source \<and> map_of req ''tsconfigRaw''
             = map_of (esbuildTransformOptions (getOptions ctx)) ''tsconfigRaw'')
     \<and> (\<forall>f. select_transform E (implementation (getOptions ctx)) = Inr f \<longrightarrow>
           (\<exists>req. Transform source req \<in> set evs))
     \<and> (\<forall>e \<in> set evs_l. \<not> is_resolver_event e)
     \<and> (\<forall>src req. Transform src req \<in> set evs_l \<longrightarrow>
           src = source \<and> map_of req ''tsconfigRaw''
             = map_of (esbuildTransformOptions (getOptions ctx)) ''tsconfigRaw'')
     \<and> (\<forall>f. select_transform E (implementation (getOptions ctx)) = Inr f \<longrightarrow>
           (\<exists>req. Transform source req \<in> set evs_l))"
  using loader_skipped[OF disjI1[OF assms(1)] assms(2)] legacy_skipped[OF assms(1) assms(3)]
  by (elim conjE) (intro conjI; assumption)

theorem caller_tsconfigRaw_skips_resolution_witness:
  "snd (snd (ESBuildLoader example_env (example_context ''/project/src/a.ts'' raw_options)
       ''let a = 1'' empty_cache)) = empty_cache
   \<and> (\<exists>req. Transform ''let a = 1'' req
          \<in> set (fst (snd (ESBuildLoader example_env
               (example_context ''/project/src/a.ts'' raw_options) ''let a = 1'' empty_cache)))
        \<and> map_of req ''tsconfigRaw''
            = Some (JObject [(''compilerOptions'', JObject [(''useDefineForClassFields'', JBool True)])]))
   \<and> (\<exists>req. Transform ''let a = 1'' req
          \<in> set (snd (ESBuildLoader_legacy example_env (JObject example_config)
               (example_context ''/project/src/a.ts'' raw_options) ''let a = 1''))
        \<and> map_of req ''tsconfigRaw''
            = Some (JObject [(''compilerOptions'', JObject [(''useDefineForClassFields'', JBool True)])]))"
proof -
  let ?ctx = "example_context ''/project/src/a.ts'' raw_options"
  let ?run = "ESBuildLoader example_env ?ctx ''let a = 1'' empty_cache"
  let ?old = "ESBuildLoader_legacy example_env (JObject example_config) ?ctx ''let a = 1''"
  have h1: "has_key (esbuildTransformOptions (getOptions ?ctx)) ''tsconfigRaw''"
    by (simp add: example_env_def example_context_def no_options_def explicit_options_def empty_cache_def
        select_transform_def has_key_def isDependency_def tsExtensionsPattern_test_def endsWith_def
        Let_def raw_options_def)
  have h2: "?run = (fst ?run, fst (snd ?run), snd (snd ?run))" by simp
  have h3: "?old = (fst ?old, snd ?old)" by simp
  have s: "select_transform example_env (implementation (getOptions ?ctx))
      = Inr (defaultEsbuildTransform example_env)"
    by (simp add: example_env_def example_context_def no_options_def explicit_options_def empty_cache_def
        select_transform_def has_key_def isDependency_def tsExtensionsPattern_test_def endsWith_def
        Let_def raw_options_def)
  have n: "map_of (esbuildTransformOptions (getOptions ?ctx)) ''tsconfigRaw''
      = Some (JObject [(''compilerOptions'', JObject [(''useDefineForClassFields'', JBool True)])])"
    by (simp add: example_env_def example_context_def no_options_def explicit_options_def empty_cache_def
        select_transform_def has_key_def isDependency_def tsExtensionsPattern_test_def endsWith_def
        Let_def raw_options_def)
  from caller_tsconfigRaw_skips_resolution[OF h1 h2 h3] s n show ?thesis by metis
qed

text \<open>
  C2. A file whose path contains \<open>/node_modules/\<close> and does not end in one of the extensions
  of \<open>tsExtensionsPattern\<close>: whatever the \<open>tsconfig\<close> option and whatever the externals would
  find, the run records no resolver event, leaves the cache as it was, and the request has
  the caller's \<open>tsconfigRaw\<close> entry and nothing else under that key (none when the caller
  gave none).
\<close>

theorem non_ts_dependency_skips_resolution:
  assumes "isDependency E (resourcePath ctx)"
    and "\<not> tsExtensionsPattern_test (resourcePath ctx)"
    and "ESBuildLoader E ctx source c = (out, evs, c')"
  shows "c' = c \<and> (\<forall>e \<in> set evs. \<not> is_resolver_event e)
     \<and> (\<forall>src req. Transform src req \<in> set evs \<longrightarrow>
           src = source \<and> map_of req ''tsconfigRaw''
             = map_of (esbuildTransformOptions (getOptions ctx)) ''tsconfigRaw'')
     \<and> (\<forall>f. select_transform E (implementation (getOptions ctx)) = Inr f \<longrightarrow>
           (\<exists>req. Transform source req \<in> set evs))"
  using loader_skipped[OF disjI2[OF conjI[OF assms(1) assms(2)]] assms(3)] .

theorem non_ts_dependency_skips_resolution_witness:
  "snd (snd (ESBuildLoader example_env
       (example_context ''/project/node_modules/pkg/index.js'' explicit_options)
       ''let a = 1'' empty_cache)) = empty_cache
   \<and> (\<exists>req. Transform ''let a = 1'' req
          \<in> set (fst (snd (ESBuildLoader example_env
               (example_context ''/project/node_modules/pkg/index.js'' explicit_options)
               ''let a = 1'' empty_cache)))
        \<and> map_of req ''tsconfigRaw'' = None)"
proof -
  let ?ctx = "example_context ''/project/node_modules/pkg/index.js'' explicit_options"
  let ?run = "ESBuildLoader example_env ?ctx ''let a = 1'' empty_cache"
  have h1: "isDependency example_env (resourcePath ?ctx)" by (simp add: example_env_def example_context_def no_options_def explicit_options_def empty_cache_def
        select_transform_def has_key_def isDependency_def tsExtensionsPattern_test_def endsWith_def
        Let_def)
  have h2: "\<not> tsExtensionsPattern_test (resourcePath ?ctx)" by (simp add: example_env_def example_context_def no_options_def explicit_options_def empty_cache_def
        select_transform_def has_key_def isDependency_def tsExtensionsPattern_test_def endsWith_def
        Let_def)
  have h3: "?run = (fst ?run, fst (snd ?run), snd (snd ?run))" by simp
  have s: "select_transform example_env (implementation (getOptions ?ctx))
      = Inr (defaultEsbuildTransform example_env)"
    by (simp add: example_env_def example_context_def no_options_def explicit_options_def empty_cache_def
        select_transform_def has_key_def isDependency_def tsExtensionsPattern_test_def endsWith_def
        Let_def)
  have n: "map_of (esbuildTransformOptions (getOptions ?ctx)) ''tsconfigRaw'' = None"
    by (simp add: example_env_def example_context_def no_options_def explicit_options_def empty_cache_def
        select_transform_def has_key_def isDependency_def tsExtensionsPattern_test_def endsWith_def
        Let_def)
  from non_ts_dependency_skips_resolution[OF h1 h2 h3] s n show ?thesis by metis
qed

lemma run_transform_parses:
  assumes "run_transform E f src req = (out, evs)" and "f src req = Inr r"
    and "map' r = Some m" and "m \<noteq> []"
  shows "JSONParse m \<in> set evs"
  using assms by (auto simp: run_transform_def split: sum.splits)

lemma loader_parses:
  assumes "ESBuildLoader E ctx source c = (out, evs, c')"
    and "select_transform E (implementation (getOptions ctx)) = Inr f"
    and "Transform source req \<in> set evs"
    and "f source req = Inr r"
    and "map' r = Some m" and "m \<noteq> []"
  shows "JSONParse m \<in> set evs"
proof -
  from loader_transform_event[OF assms(1) assms(3)] assms(2)
  obtain evs_r evs_t where rt: "run_transform E f source req = (out, evs_t)"
    and eq: "evs = evs_r @ evs_t"
    by auto
  from run_transform_parses[OF rt assms(4) assms(5) assms(6)] eq show ?thesis by simp
qed

lemma legacy_parses:
  assumes "ESBuildLoader_legacy E module_tsconfig ctx source = (out, evs)"
    and "select_transform E (implementation (getOptions ctx)) = Inr f"
    and "Transform source req \<in> set evs"
    and "f source req = Inr r"
    and "map' r = Some m" and "m \<noteq> []"
  shows "JSONParse m \<in> set evs"
proof -
  from assms(1) assms(2) obtain t where rl: "run_transform E f source t = (out, evs)"
    by (auto simp: ESBuildLoader_legacy_def Let_def split: if_splits)
  from run_transform_cases[OF rl] assms(3) have "t = req" by auto
  with rl have "run_transform E f source req = (out, evs)" by simp
  from run_transform_parses[OF this assms(4) assms(5) assms(6)] show ?thesis .
qed

text \<open>
  C10. In each loader, for any call of the transformer that resolves: when the map is absent
  or the empty string, the run completes with \<open>done(null, code, map)\<close> for that same falsy
  map and \<open>JSON.parse\<close> is not called; \<open>JSON.parse\<close> is called only on a non-empty string,
  the map the transformer returned, and a non-empty map is passed to it. The two loaders are
  stated apart: neither part assumes anything about the other loader's run.
\<close>

theorem falsy_map_not_parsed:
  "(select_transform E (implementation (getOptions ctx)) = Inr f
      \<and> ESBuildLoader E ctx source c = (out, evs, c')
      \<and> Transform source req \<in> set evs \<and> f source req = Inr r
    \<longrightarrow> (map' r = None \<longrightarrow>
           out = Done_ok (code r) JUndefined \<and> (\<forall>m. JSONParse m \<notin> set evs))
        \<and> (map' r = Some [] \<longrightarrow>
           out = Done_ok (code r) (JString []) \<and> (\<forall>m. JSONParse m \<notin> set evs))
        \<and> (\<forall>m. JSONParse m \<in> set evs \<longrightarrow> m \<noteq> [] \<and> map' r = Some m)
        \<and> (\<forall>m. map' r = Some m \<and> m \<noteq> [] \<longrightarrow> JSONParse m \<in> set evs))
   \<and> (select_transform E (implementation (getOptions ctx)) = Inr f
      \<and> ESBuildLoader_legacy E module_tsconfig ctx source = (out_l, evs_l)
      \<and> Transform source req_l \<in> set evs_l \<and> f source req_l = Inr r_l
    \<longrightarrow> (map' r_l = None \<longrightarrow>
           out_l = Done_ok (code r_l) JUndefined \<and> (\<forall>m. JSONParse m \<notin> set evs_l))
        \<and> (map' r_l = Some [] \<longrightarrow>
           out_l = Done_ok (code r_l) (JString []) \<and> (\<forall>m. JSONParse m \<notin> set evs_l))
        \<and> (\<forall>m. JSONParse m \<in> set evs_l \<longrightarrow> m \<noteq> [] \<and> map' r_l = Some m)
        \<and> (\<forall>m. map' r_l = Some m \<and> m \<noteq> [] \<longrightarrow> JSONParse m \<in> set evs_l))"
proof (rule conjI)
  show "select_transform E (implementation (getOptions ctx)) = Inr f
      \<and> ESBuildLoader E ctx source c = (out, evs, c')
      \<and> Transform source req \<in> set evs \<and> f source req = Inr r
    \<longrightarrow> (map' r = None \<longrightarrow>
           out = Done_ok (code r) JUndefined \<and> (\<forall>m. JSONParse m \<notin> set evs))
        \<and> (map' r = Some [] \<longrightarrow>
           out = Done_ok (code r) (JString []) \<and> (\<forall>m. JSONParse m \<notin> set evs))
        \<and> (\<forall>m. JSONParse m \<in> set evs \<longrightarrow> m \<noteq> [] \<and> map' r = Some m)
        \<and> (\<forall>m. map' r = Some m \<and> m \<noteq> [] \<longrightarrow> JSONParse m \<in> set evs)"
  proof (rule impI)
    assume h: "select_transform E (implementation (getOptions ctx)) = Inr f
      \<and> ESBuildLoader E ctx source c = (out, evs, c')
      \<and> Transform source req \<in> set evs \<and> f source req = Inr r"
    then have s: "select_transform E (implementation (getOptions ctx)) = Inr f"
      and run: "ESBuildLoader E ctx source c = (out, evs, c')"
      and tr: "Transform source req \<in> set evs" and res: "f source req = Inr r"
      by simp_all
    have p: "\<forall>m. map' r = Some m \<and> m \<noteq> [] \<longrightarrow> JSONParse m \<in> set evs"
      using loader_parses[OF run s tr res] by blast
    from loader_map[OF run s tr res] p
    show "(map' r = None \<longrightarrow>
           out = Done_ok (code r) JUndefined \<and> (\<forall>m. JSONParse m \<notin> set evs))
        \<and> (map' r = Some [] \<longrightarrow>
           out = Done_ok (code r) (JString []) \<and> (\<forall>m. JSONParse m \<notin> set evs))
        \<and> (\<forall>m. JSONParse m \<in> set evs \<longrightarrow> m \<noteq> [] \<and> map' r = Some m)
        \<and> (\<forall>m. map' r = Some m \<and> m \<noteq> [] \<longrightarrow> JSONParse m \<in> set evs)"
      by (elim conjE) (intro conjI; assumption)
  qed
  show "select_transform E (implementation (getOptions ctx)) = Inr f
      \<and> ESBuildLoader_legacy E module_tsconfig ctx source = (out_l, evs_l)
      \<and> Transform source req_l \<in> set evs_l \<and> f source req_l = Inr r_l
    \<longrightarrow> (map' r_l = None \<longrightarrow>
           out_l = Done_ok (code r_l) JUndefined \<and> (\<forall>m. JSONParse m \<notin> set evs_l))
        \<and> (map' r_l = Some [] \<longrightarrow>
           out_l = Done_ok (code r_l) (JString []) \<and> (\<forall>m. JSONParse m \<notin> set evs_l))
        \<and> (\<forall>m. JSONParse m \<in> set evs_l \<longrightarrow> m \<noteq> [] \<and> map' r_l = Some m)
        \<and> (\<forall>m. map' r_l = Some m \<and> m \<noteq> [] \<longrightarrow> JSONParse m \<in> set evs_l)"
  proof (rule impI)
    assume h: "select_transform E (implementation (getOptions ctx)) = Inr f
      \<and> ESBuildLoader_legacy E module_tsconfig ctx source = (out_l, evs_l)
      \<and> Transform source req_l \<in> set evs_l \<and> f source req_l = Inr r_l"
    then have s: "select_transform E (implementation (getOptions ctx)) = Inr f"
      and run: "ESBuildLoader_legacy E module_tsconfig ctx source = (out_l, evs_l)"
      and tr: "Transform source req_l \<in> set evs_l" and res: "f source req_l = Inr r_l"
      by simp_all
    have p: "\<forall>m. map' r_l = Some m \<and> m \<noteq> [] \<longrightarrow> JSONParse m \<in> set evs_l"
      using legacy_parses[OF run s tr res] by blast
    from legacy_map[OF run s tr res] p
    show "(map' r_l = None \<longrightarrow>
           out_l = Done_ok (code r_l) JUndefined \<and> (\<forall>m. JSONParse m \<notin> set evs_l))
        \<and> (map' r_l = Some [] \<longrightarrow>
           out_l = Done_ok (code r_l) (JString []) \<and> (\<forall>m. JSONParse m \<notin> set evs_l))
        \<and> (\<forall>m. JSONParse m \<in> set evs_l \<longrightarrow> m \<noteq> [] \<and> map' r_l = Some m)
        \<and> (\<forall>m. map' r_l = Some m \<and> m \<noteq> [] \<longrightarrow> JSONParse m \<in> set evs_l)"
      by (elim conjE) (intro conjI; assumption)
  qed
qed

theorem falsy_map_not_parsed_witness:
  "fst (ESBuildLoader example_env (example_context ''/elsewhere/x.js'' custom_options)
          ''let a = 1'' empty_cache)
     = Done_ok (code custom_result) (JString [])
   \<and> (\<forall>m. JSONParse m \<notin> set (fst (snd (ESBuildLoader example_env
          (example_context ''/elsewhere/x.js'' custom_options) ''let a = 1'' empty_cache))))
   \<and> fst (ESBuildLoader_legacy example_env JUndefined
          (example_context ''/elsewhere/x.js'' custom_options) ''let a = 1'')
     = Done_ok (code custom_result) (JString [])
   \<and> (\<forall>m. JSONParse m \<notin> set (snd (ESBuildLoader_legacy example_env JUndefined
          (example_context ''/elsewhere/x.js'' custom_options) ''let a = 1'')))"
proof -
  let ?ctx = "example_context ''/elsewhere/x.js'' custom_options"
  let ?run = "ESBuildLoader example_env ?ctx ''let a = 1'' empty_cache"
  let ?old = "ESBuildLoader_legacy example_env JUndefined ?ctx ''let a = 1''"
  let ?req = "[(''target'', JString ''es2015''), (''loader'', JString ''default''),
               (''sourcemap'', JBool False), (''sourcefile'', JString ''/elsewhere/x.js''),
               (''supported'', JObject [(''dynamic-import'', JBool True)])]"
  let ?req_l = "[(''target'', JString ''es2015''), (''loader'', JString ''default''),
               (''sourcemap'', JBool False), (''sourcefile'', JString ''/elsewhere/x.js''),
               (''tsconfigRaw'', JUndefined)]"
  have h1: "select_transform example_env (implementation (getOptions ?ctx)) = Inr custom_transform"
    by (simp add: example_context_def custom_options_def no_options_def select_transform_def)
  have h2: "ESBuildLoader example_env ?ctx ''let a = 1'' empty_cache
      = (fst ?run, fst (snd ?run), snd (snd ?run))" by simp
  have h3: "Transform ''let a = 1'' ?req \<in> set (fst (snd ?run))"
    by (simp add: example_env_def example_context_def no_options_def explicit_options_def empty_cache_def
        select_transform_def has_key_def isDependency_def tsExtensionsPattern_test_def endsWith_def
        Let_def custom_options_def custom_transform_def custom_result_def ESBuildLoader_def ESBuildLoader_legacy_def resolve_tsconfig_def
        discovery_branch_def explicit_branch_def cached_tsconfig_def createFilesMatcher_def
        base_transformOptions_def legacy_transformOptions_def with_supported_def
        run_transform_def obj_get_def)
  have h4: "custom_transform ''let a = 1'' ?req = Inr custom_result"
    by (simp add: custom_transform_def)
  have h5: "ESBuildLoader_legacy example_env JUndefined ?ctx ''let a = 1''
      = (fst ?old, snd ?old)" by simp
  have h6: "Transform ''let a = 1'' ?req_l \<in> set (snd ?old)"
    by (simp add: example_env_def example_context_def no_options_def explicit_options_def empty_cache_def
        select_transform_def has_key_def isDependency_def tsExtensionsPattern_test_def endsWith_def
        Let_def custom_options_def custom_transform_def custom_result_def ESBuildLoader_def ESBuildLoader_legacy_def resolve_tsconfig_def
        discovery_branch_def explicit_branch_def cached_tsconfig_def createFilesMatcher_def
        base_transformOptions_def legacy_transformOptions_def with_supported_def
        run_transform_def obj_get_def)
  have h7: "custom_transform ''let a = 1'' ?req_l = Inr custom_result"
    by (simp add: custom_transform_def)
  have m: "map' custom_result = Some []" by (simp add: custom_result_def)
  note f = falsy_map_not_parsed
    [where E=example_env and ctx="?ctx" and f=custom_transform and source="''let a = 1''"
       and c=empty_cache and out="fst ?run" and evs="fst (snd ?run)" and c'="snd (snd ?run)"
       and req="?req" and r=custom_result and module_tsconfig=JUndefined
       and out_l="fst ?old" and evs_l="snd ?old" and req_l="?req_l" and r_l=custom_result]
  note new = f[THEN conjunct1, THEN mp, OF conjI[OF h1 conjI[OF h2 conjI[OF h3 h4]]],
      THEN conjunct2, THEN conjunct1, THEN mp, OF m]
  note old = f[THEN conjunct2, THEN mp, OF conjI[OF h1 conjI[OF h5 conjI[OF h6 h7]]],
      THEN conjunct2, THEN conjunct1, THEN mp, OF m]
  from new old show ?thesis by blast
qed

end
